theory Spec2Isabelle
  imports Main "HOL-Library.AList"
begin

section \<open>Strings and Python values\<close>

text \<open>
  Source text is a \<^typ>\<open>string\<close> of 8-bit characters.  The character predicates of
  Python (\<open>isdigit\<close>, \<open>isalpha\<close>, \<open>isalnum\<close>, \<open>lower\<close>) are embedded on the ASCII range,
  where they are decided by the tables below.
\<close>

abbreviation dq :: string where "dq \<equiv> [CHR 0x22]"
abbreviation sq :: string where "sq \<equiv> [CHR 0x27]"
abbreviation nl :: string where "nl \<equiv> [CHR 0x0A]"
abbreviation bsl :: string where "bsl \<equiv> [CHR 0x5C]"

definition isdigit :: "char \<Rightarrow> bool" where
  "isdigit c = (c \<in> set ''0123456789'')"

definition isalpha :: "char \<Rightarrow> bool" where
  "isalpha c = (c \<in> set ''abcdefghijklmnopqrstuvwxyzABCDEFGHIJKLMNOPQRSTUVWXYZ'')"

definition isalnum :: "char \<Rightarrow> bool" where
  "isalnum c = (isalpha c \<or> isdigit c)"

definition lower_char :: "char \<Rightarrow> char" where
  "lower_char c =
     (case map_of (zip ''ABCDEFGHIJKLMNOPQRSTUVWXYZ'' ''abcdefghijklmnopqrstuvwxyz'') c of
        Some d \<Rightarrow> d
      | None \<Rightarrow> c)"

definition lower :: "string \<Rightarrow> string" where
  "lower s = map lower_char s"

text \<open>\<open>sep.join(parts)\<close>\<close>

fun join :: "string \<Rightarrow> string list \<Rightarrow> string" where
  "join sep [] = []"
| "join sep [x] = x"
| "join sep (x # y # ys) = x @ sep @ join sep (y # ys)"

text \<open>\<open>text.split('\n')\<close>: the pieces between line feeds, always at least one.\<close>

fun split_lines :: "string \<Rightarrow> string list" where
  "split_lines [] = [[]]"
| "split_lines (c # cs) =
     (if c = CHR 0x0A then [] # split_lines cs
      else (case split_lines cs of
              l # ls \<Rightarrow> (c # l) # ls
            | [] \<Rightarrow> [[c]]))"

text \<open>\<open>str(n)\<close> for integers, and \<open>f"{n:4d}"\<close>.\<close>

definition digit_char :: "nat \<Rightarrow> char" where
  "digit_char d = ''0123456789'' ! d"

function str_nat :: "nat \<Rightarrow> string" where
  "str_nat n = (if n < 10 then [digit_char n] else str_nat (n div 10) @ [digit_char (n mod 10)])"
  by pat_completeness auto
termination
  by (relation "measure id") auto

declare str_nat.simps [simp del]

definition str_int :: "int \<Rightarrow> string" where
  "str_int i = (if i < 0 then ''-'' @ str_nat (nat (- i)) else str_nat (nat i))"

definition format_4d :: "int \<Rightarrow> string" where
  "format_4d i = (let s = str_int i in replicate (4 - length s) CHR '' '' @ s)"

text \<open>
  The values a token or a parameter can carry.  A decimal literal keeps the text it was read
  from (\<open>VFloat\<close>); no floating-point arithmetic is embedded.
\<close>

datatype PyVal =
    VNone
  | VBool bool
  | VInt int
  | VFloat string
  | VStr string
  | VList "PyVal list"
  | VDict "(PyVal \<times> PyVal) list"

section \<open>Diagnostics (noeta\_errors.py)\<close>

datatype ErrorCategory = LEXER | SYNTAX | SEMANTIC | RUNTIME | TYPE'

fun category_value :: "ErrorCategory \<Rightarrow> string" where
  "category_value LEXER = ''Lexical Error''"
| "category_value SYNTAX = ''Syntax Error''"
| "category_value SEMANTIC = ''Semantic Error''"
| "category_value RUNTIME = ''Runtime Error''"
| "category_value TYPE' = ''Type Error''"

record ErrorContext =
  ctx_line :: int
  ctx_column :: int
  ctx_length :: int
  ctx_source_line :: string

text \<open>The constructor with \<open>__post_init__\<close>: a length below 1 becomes 1.\<close>

definition new_ErrorContext :: "int \<Rightarrow> int \<Rightarrow> int \<Rightarrow> string \<Rightarrow> ErrorContext" where
  "new_ErrorContext l c n s =
     \<lparr>ctx_line = l, ctx_column = c, ctx_length = (if n < 1 then 1 else n), ctx_source_line = s\<rparr>"

record NoetaError =
  message :: string
  category :: ErrorCategory
  context' :: "ErrorContext option"
  hint :: "string option"
  suggestion :: "string option"

text \<open>
  What a stage can raise: a diagnostic, or any other Python exception, kept as its class
  name and message.
\<close>

datatype exc = NoetaExc NoetaError | PyExc string string

text \<open>
  \<open>ErrorFormatter._supports_color()\<close> asks whether standard error is a terminal; the
  answer is the parameter \<open>color\<close> of the formatting functions.
\<close>

abbreviation RED :: string where "RED \<equiv> CHR 0x1B # ''[91m''"
abbreviation YELLOW :: string where "YELLOW \<equiv> CHR 0x1B # ''[93m''"
abbreviation CYAN :: string where "CYAN \<equiv> CHR 0x1B # ''[96m''"
abbreviation GREEN :: string where "GREEN \<equiv> CHR 0x1B # ''[92m''"
abbreviation BOLD :: string where "BOLD \<equiv> CHR 0x1B # ''[1m''"
abbreviation RESET :: string where "RESET \<equiv> CHR 0x1B # ''[0m''"

definition colorize :: "bool \<Rightarrow> string \<Rightarrow> string \<Rightarrow> string" where
  "colorize color text c = (if color then c @ text @ RESET else text)"

definition format_source_context :: "bool \<Rightarrow> ErrorContext \<Rightarrow> string" where
  "format_source_context color ctx =
     (let line_num_str = format_4d (ctx_line ctx);
          source_line = ''    '' @ line_num_str @ '' | '' @ ctx_source_line ctx;
          spaces = 4 + int (length line_num_str) + 3 + ctx_column ctx - 1;
          arrow = replicate (nat spaces) CHR '' ''
                  @ colorize color (replicate (nat (ctx_length ctx)) CHR ''^'') CYAN
      in join nl [source_line, arrow])"

definition format_error :: "bool \<Rightarrow> NoetaError \<Rightarrow> string" where
  "format_error color e =
     (let header =
            (case context' e of
               Some ctx \<Rightarrow> category_value (category e) @ '' at line '' @ str_int (ctx_line ctx)
                           @ '', column '' @ str_int (ctx_column ctx) @ '':''
             | None \<Rightarrow> category_value (category e) @ '':'');
          lines0 = [colorize color header (RED @ BOLD)];
          lines1 = (case context' e of
                      Some ctx \<Rightarrow> (if ctx_source_line ctx \<noteq> []
                                   then lines0 @ [format_source_context color ctx] else lines0)
                    | None \<Rightarrow> lines0);
          lines2 = lines1 @ [''    '' @ colorize color (message e) RED];
          lines3 = (case hint e of
                      Some h \<Rightarrow> (if h \<noteq> []
                                 then lines2 @ [[], colorize color (''Hint: '' @ h) YELLOW]
                                 else lines2)
                    | None \<Rightarrow> lines2);
          lines4 = (case suggestion e of
                      Some s \<Rightarrow> (if s \<noteq> []
                                 then lines3 @ [colorize color (''Did you mean: '' @ s) GREEN]
                                 else lines3)
                    | None \<Rightarrow> lines3)
      in join nl lines4)"

subsection \<open>Similarity suggestions\<close>

text \<open>
  The inner loop of \<open>levenshtein_distance\<close>: \<open>j\<close> runs over the positions of \<open>s2\<close>,
  reading \<open>previous_row[j]\<close>, \<open>previous_row[j + 1]\<close> and \<open>current_row[j]\<close>.
\<close>

function row_loop :: "char \<Rightarrow> string \<Rightarrow> nat list \<Rightarrow> nat \<Rightarrow> nat list \<Rightarrow> nat list" where
  "row_loop c1 s2 previous_row j current_row =
     (if j < length s2 then
        (let insertions = previous_row ! (j + 1) + 1;
             deletions = current_row ! j + 1;
             substitutions = previous_row ! j + (if c1 \<noteq> s2 ! j then 1 else 0)
         in row_loop c1 s2 previous_row (j + 1)
              (current_row @ [min insertions (min deletions substitutions)]))
      else current_row)"
  by pat_completeness auto
termination
  by (relation "measure (\<lambda>(c1, s2, p, j, c). length s2 - j)") auto

declare row_loop.simps [simp del]

fun rows_loop :: "string \<Rightarrow> string \<Rightarrow> nat \<Rightarrow> nat list \<Rightarrow> nat list" where
  "rows_loop [] s2 i previous_row = previous_row"
| "rows_loop (c1 # s1) s2 i previous_row =
     rows_loop s1 s2 (i + 1) (row_loop c1 s2 previous_row 0 [i + 1])"

definition levenshtein_rows :: "string \<Rightarrow> string \<Rightarrow> nat" where
  "levenshtein_rows s1 s2 =
     (if length s2 = 0 then length s1
      else last (rows_loop s1 s2 0 [0 ..< length s2 + 1]))"

definition levenshtein_distance :: "string \<Rightarrow> string \<Rightarrow> nat" where
  "levenshtein_distance s1 s2 =
     (if length s1 < length s2 then levenshtein_rows s2 s1 else levenshtein_rows s1 s2)"

definition suggest_similar :: "string \<Rightarrow> string list \<Rightarrow> nat \<Rightarrow> nat \<Rightarrow> string list" where
  "suggest_similar attempted available max_suggestions max_distance =
     (if available = [] then []
      else
        (let distances =
               filter (\<lambda>(dist, name). dist \<le> max_distance)
                 (map (\<lambda>name. (levenshtein_distance (lower attempted) (lower name), name))
                    available)
         in map snd (take max_suggestions (sort_key fst distances))))"

definition create_semantic_error ::
  "string \<Rightarrow> int \<Rightarrow> int \<Rightarrow> string \<Rightarrow> int \<Rightarrow> string option \<Rightarrow> string option \<Rightarrow> NoetaError" where
  "create_semantic_error msg line col source_line len h s =
     \<lparr>message = msg, category = SEMANTIC,
      context' = (if line > 0 then Some (new_ErrorContext line col len source_line) else None),
      hint = h, suggestion = s\<rparr>"

section \<open>Tokens (noeta\_lexer.py)\<close>

text \<open>
  A member of the enumeration \<open>TokenType\<close> is identified by its name;
  \<open>TokenType_declared\<close> holds of the names the class declares, listed in declaration
  order.
\<close>

datatype TokenType = TokenType (name: string)

definition TokenType_declared :: "string \<Rightarrow> bool" where
  "TokenType_declared n =
     (n = ''LOAD'' \<or> n = ''SELECT'' \<or> n = ''FILTER'' \<or> n = ''SORT'' \<or>
      n = ''JOIN'' \<or> n = ''GROUPBY'' \<or> n = ''SAMPLE'' \<or> n = ''DROPNA'' \<or>
      n = ''FILLNA'' \<or> n = ''MUTATE'' \<or> n = ''APPLY'' \<or> n = ''DESCRIBE'' \<or>
      n = ''SUMMARY'' \<or> n = ''OUTLIERS'' \<or> n = ''QUANTILE'' \<or> n = ''NORMALIZE'' \<or>
      n = ''BINNING'' \<or> n = ''ROLLING'' \<or> n = ''HYPOTHESIS'' \<or> n = ''BOXPLOT'' \<or>
      n = ''HEATMAP'' \<or> n = ''PAIRPLOT'' \<or> n = ''TIMESERIES'' \<or> n = ''PIE'' \<or>
      n = ''SAVE'' \<or> n = ''EXPORT_PLOT'' \<or> n = ''INFO'' \<or> n = ''UNIQUE'' \<or>
      n = ''VALUE_COUNTS'' \<or> n = ''SHOW'' \<or> n = ''SELECT_BY_TYPE'' \<or>
      n = ''HEAD'' \<or> n = ''TAIL'' \<or> n = ''ILOC'' \<or> n = ''LOC'' \<or>
      n = ''RENAME'' \<or> n = ''REORDER'' \<or> n = ''FILTER_BETWEEN'' \<or>
      n = ''FILTER_ISIN'' \<or> n = ''FILTER_CONTAINS'' \<or> n = ''FILTER_STARTSWITH'' \<or>
      n = ''FILTER_ENDSWITH'' \<or> n = ''FILTER_REGEX'' \<or> n = ''FILTER_NULL'' \<or>
      n = ''FILTER_NOTNULL'' \<or> n = ''FILTER_DUPLICATES'' \<or> n = ''ROUND'' \<or>
      n = ''ABS'' \<or> n = ''SQRT'' \<or> n = ''POWER'' \<or> n = ''LOG'' \<or>
      n = ''CEIL'' \<or> n = ''FLOOR'' \<or> n = ''UPPER'' \<or> n = ''LOWER'' \<or>
      n = ''STRIP'' \<or> n = ''LSTRIP'' \<or> n = ''RSTRIP'' \<or> n = ''TITLE'' \<or>
      n = ''CAPITALIZE'' \<or> n = ''REPLACE'' \<or> n = ''SPLIT'' \<or> n = ''CONCAT'' \<or>
      n = ''SUBSTRING'' \<or> n = ''LENGTH'' \<or> n = ''EXTRACT_REGEX'' \<or> n = ''FIND'' \<or>
      n = ''PARSE_DATETIME'' \<or> n = ''EXTRACT'' \<or> n = ''EXTRACT_YEAR'' \<or>
      n = ''EXTRACT_MONTH'' \<or> n = ''EXTRACT_DAY'' \<or> n = ''EXTRACT_HOUR'' \<or>
      n = ''EXTRACT_MINUTE'' \<or> n = ''EXTRACT_SECOND'' \<or> n = ''EXTRACT_DAYOFWEEK'' \<or>
      n = ''EXTRACT_DAYOFYEAR'' \<or> n = ''EXTRACT_WEEKOFYEAR'' \<or>
      n = ''EXTRACT_QUARTER'' \<or> n = ''DATE_DIFF'' \<or> n = ''DATE_ADD'' \<or>
      n = ''DATE_SUBTRACT'' \<or> n = ''FORMAT_DATETIME'' \<or> n = ''ASTYPE'' \<or>
      n = ''TO_NUMERIC'' \<or> n = ''ONE_HOT_ENCODE'' \<or> n = ''LABEL_ENCODE'' \<or>
      n = ''STANDARD_SCALE'' \<or> n = ''MINMAX_SCALE'' \<or> n = ''ISNULL'' \<or>
      n = ''NOTNULL'' \<or> n = ''COUNT_NA'' \<or> n = ''FILL_FORWARD'' \<or>
      n = ''FILL_BACKWARD'' \<or> n = ''FILL_MEAN'' \<or> n = ''FILL_MEDIAN'' \<or>
      n = ''FILL_MODE'' \<or> n = ''INTERPOLATE'' \<or> n = ''DUPLICATED'' \<or>
      n = ''COUNT_DUPLICATES'' \<or> n = ''DROP_DUPLICATES'' \<or> n = ''QCUT'' \<or>
      n = ''CUT'' \<or> n = ''SORT_INDEX'' \<or> n = ''RANK'' \<or> n = ''FILTER_GROUPS'' \<or>
      n = ''GROUP_TRANSFORM'' \<or> n = ''WINDOW_RANK'' \<or> n = ''WINDOW_LAG'' \<or>
      n = ''WINDOW_LEAD'' \<or> n = ''ROLLING_MEAN'' \<or> n = ''ROLLING_SUM'' \<or>
      n = ''ROLLING_STD'' \<or> n = ''ROLLING_MIN'' \<or> n = ''ROLLING_MAX'' \<or>
      n = ''EXPANDING_MEAN'' \<or> n = ''EXPANDING_SUM'' \<or> n = ''EXPANDING_MIN'' \<or>
      n = ''EXPANDING_MAX'' \<or> n = ''CUMSUM'' \<or> n = ''CUMMAX'' \<or> n = ''CUMMIN'' \<or>
      n = ''CUMPROD'' \<or> n = ''PCT_CHANGE'' \<or> n = ''DIFF'' \<or> n = ''SHIFT'' \<or>
      n = ''PIVOT'' \<or> n = ''PIVOT_TABLE'' \<or> n = ''MELT'' \<or> n = ''STACK'' \<or>
      n = ''UNSTACK'' \<or> n = ''TRANSPOSE'' \<or> n = ''CROSSTAB'' \<or> n = ''MERGE'' \<or>
      n = ''CONCAT_VERTICAL'' \<or> n = ''CONCAT_HORIZONTAL'' \<or> n = ''UNION'' \<or>
      n = ''INTERSECTION'' \<or> n = ''DIFFERENCE'' \<or> n = ''SET_INDEX'' \<or>
      n = ''RESET_INDEX'' \<or> n = ''APPLY_ROW'' \<or> n = ''APPLY_COLUMN'' \<or>
      n = ''APPLYMAP'' \<or> n = ''MAP'' \<or> n = ''MAP_VALUES'' \<or> n = ''RESAMPLE'' \<or>
      n = ''ASSIGN_CONST'' \<or> n = ''ROBUST_SCALE'' \<or> n = ''MAXABS_SCALE'' \<or>
      n = ''ORDINAL_ENCODE'' \<or> n = ''TARGET_ENCODE'' \<or> n = ''ASSERT_UNIQUE'' \<or>
      n = ''ASSERT_NO_NULLS'' \<or> n = ''ASSERT_RANGE'' \<or> n = ''REINDEX'' \<or>
      n = ''SET_MULTIINDEX'' \<or> n = ''ANY'' \<or> n = ''ALL'' \<or> n = ''COUNT_TRUE'' \<or>
      n = ''COMPARE'' \<or> n = ''CSV'' \<or> n = ''JSON'' \<or> n = ''EXCEL'' \<or>
      n = ''PARQUET'' \<or> n = ''SQL'' \<or> n = ''AS'' \<or> n = ''BY'' \<or>
      n = ''WITH'' \<or> n = ''ON'' \<or> n = ''FROM'' \<or> n = ''AGG'' \<or>
      n = ''COMPUTE'' \<or> n = ''COLUMN'' \<or> n = ''COLUMNS'' \<or> n = ''VALUE'' \<or>
      n = ''VALUES'' \<or> n = ''N'' \<or> n = ''RANDOM'' \<or> n = ''METHOD'' \<or>
      n = ''Q'' \<or> n = ''BINS'' \<or> n = ''WINDOW'' \<or> n = ''FUNCTION'' \<or>
      n = ''TRANSFORM'' \<or> n = ''VS'' \<or> n = ''TEST'' \<or> n = ''X'' \<or> n = ''Y'' \<or>
      n = ''LABELS'' \<or> n = ''TO'' \<or> n = ''FORMAT'' \<or> n = ''FILENAME'' \<or>
      n = ''WIDTH'' \<or> n = ''HEIGHT'' \<or> n = ''DESC'' \<or> n = ''WHERE'' \<or>
      n = ''ASC'' \<or> n = ''TYPE'' \<or> n = ''ROWS'' \<or> n = ''MAPPING'' \<or>
      n = ''ORDER'' \<or> n = ''LIMIT'' \<or> n = ''OFFSET'' \<or> n = ''FIRST'' \<or>
      n = ''LAST'' \<or> n = ''MIN'' \<or> n = ''MAX'' \<or> n = ''PATTERN'' \<or>
      n = ''KEEP'' \<or> n = ''SUBSET'' \<or> n = ''AND'' \<or> n = ''OR'' \<or>
      n = ''NOT'' \<or> n = ''IN'' \<or> n = ''BETWEEN'' \<or> n = ''CONTAINS'' \<or>
      n = ''STARTS_WITH'' \<or> n = ''ENDS_WITH'' \<or> n = ''MATCHES'' \<or> n = ''IS'' \<or>
      n = ''NULL'' \<or> n = ''PART'' \<or> n = ''DECIMALS'' \<or> n = ''EXPONENT'' \<or>
      n = ''BASE'' \<or> n = ''SEPARATOR'' \<or> n = ''UNIT'' \<or> n = ''OLD'' \<or>
      n = ''NEW'' \<or> n = ''DELIMITER_STR'' \<or> n = ''START'' \<or> n = ''END'' \<or>
      n = ''DTYPE_STR'' \<or> n = ''ERRORS'' \<or> n = ''STRATEGY'' \<or> n = ''AXIS'' \<or>
      n = ''ASCENDING'' \<or> n = ''PERIODS'' \<or> n = ''ID_VARS'' \<or>
      n = ''VALUE_VARS'' \<or> n = ''VAR_NAME'' \<or> n = ''VALUE_NAME'' \<or> n = ''LEFT'' \<or>
      n = ''RIGHT'' \<or> n = ''LEFT_ON'' \<or> n = ''RIGHT_ON'' \<or> n = ''SUFFIXES'' \<or>
      n = ''HOW'' \<or> n = ''AGGFUNC'' \<or> n = ''FILL_VALUE'' \<or> n = ''LEVEL'' \<or>
      n = ''RULE'' \<or> n = ''CONDITION'' \<or> n = ''PCT'' \<or> n = ''DROP'' \<or>
      n = ''IGNORE_INDEX'' \<or> n = ''DELIMITER'' \<or> n = ''ENCODING'' \<or>
      n = ''HEADER'' \<or> n = ''NAMES'' \<or> n = ''USECOLS'' \<or> n = ''DTYPE'' \<or>
      n = ''SKIPROWS'' \<or> n = ''NROWS'' \<or> n = ''NA_VALUES'' \<or> n = ''THOUSANDS'' \<or>
      n = ''DECIMAL'' \<or> n = ''COMMENT_CHAR'' \<or> n = ''SKIP_BLANK_LINES'' \<or>
      n = ''PARSE_DATES'' \<or> n = ''DATE_FORMAT'' \<or> n = ''CHUNKSIZE'' \<or>
      n = ''COMPRESSION'' \<or> n = ''LOW_MEMORY'' \<or> n = ''MEMORY_MAP'' \<or>
      n = ''ORIENT'' \<or> n = ''TYP'' \<or> n = ''CONVERT_AXES'' \<or>
      n = ''CONVERT_DATES'' \<or> n = ''PRECISE_FLOAT'' \<or> n = ''DATE_UNIT'' \<or>
      n = ''LINES'' \<or> n = ''SHEET'' \<or> n = ''SHEET_NAME'' \<or> n = ''INDEX_COL'' \<or>
      n = ''ENGINE'' \<or> n = ''CONVERTERS'' \<or> n = ''SKIPFOOTER'' \<or>
      n = ''FILTERS'' \<or> n = ''USE_NULLABLE_DTYPES'' \<or> n = ''STORAGE_OPTIONS'' \<or>
      n = ''PARAMS'' \<or> n = ''COERCE_FLOAT'' \<or> n = ''INDEX'' \<or>
      n = ''INDEX_LABEL'' \<or> n = ''NA_REP'' \<or> n = ''MODE'' \<or> n = ''QUOTING'' \<or>
      n = ''QUOTECHAR'' \<or> n = ''ESCAPECHAR'' \<or> n = ''LINETERMINATOR'' \<or>
      n = ''FLOAT_FORMAT'' \<or> n = ''TARGET'' \<or> n = ''CHARS'' \<or> n = ''GROUP'' \<or>
      n = ''STRING_LITERAL'' \<or> n = ''NUMERIC_LITERAL'' \<or> n = ''BOOLEAN_LITERAL'' \<or>
      n = ''IDENTIFIER'' \<or> n = ''EQ'' \<or> n = ''NEQ'' \<or> n = ''LT'' \<or>
      n = ''GT'' \<or> n = ''LTE'' \<or> n = ''GTE'' \<or> n = ''ASSIGN'' \<or>
      n = ''PLUS'' \<or> n = ''MINUS'' \<or> n = ''STAR'' \<or> n = ''SLASH'' \<or>
      n = ''PERCENT'' \<or> n = ''DOT'' \<or> n = ''LPAREN'' \<or> n = ''RPAREN'' \<or>
      n = ''LBRACE'' \<or> n = ''RBRACE'' \<or> n = ''LBRACKET'' \<or> n = ''RBRACKET'' \<or>
      n = ''COLON'' \<or> n = ''COMMA'' \<or> n = ''NEWLINE'' \<or> n = ''EOF'' \<or>
      n = ''COMMENT'')"

text \<open>
  The attribute access \<open>TokenType.X\<close>: a name that the class does not declare raises
  \<open>AttributeError\<close>.
\<close>

definition TokenType_attr :: "string \<Rightarrow> exc + TokenType" where
  "TokenType_attr n =
     (if TokenType_declared n then Inr (TokenType n)
      else Inl (PyExc ''AttributeError'' n))"

record Token =
  tok_type :: TokenType
  tok_value :: PyVal
  tok_line :: int
  tok_column :: int

text \<open>
  The dictionary \<open>self.keywords\<close> of \<open>Lexer.__init__\<close>, entry by entry in the order of
  the source; the lexer looks the lower-cased word up in it.
\<close>

definition keywords_dict :: "string \<rightharpoonup> TokenType" where
  "keywords_dict w =
    (if w = ''load'' then Some (TokenType ''LOAD'')
     else if w = ''select'' then Some (TokenType ''SELECT'')
     else if w = ''filter'' then Some (TokenType ''FILTER'')
     else if w = ''sort'' then Some (TokenType ''SORT'')
     else if w = ''join'' then Some (TokenType ''JOIN'')
     else if w = ''groupby'' then Some (TokenType ''GROUPBY'')
     else if w = ''sample'' then Some (TokenType ''SAMPLE'')
     else if w = ''dropna'' then Some (TokenType ''DROPNA'')
     else if w = ''fillna'' then Some (TokenType ''FILLNA'')
     else if w = ''mutate'' then Some (TokenType ''MUTATE'')
     else if w = ''apply'' then Some (TokenType ''APPLY'')
     else if w = ''describe'' then Some (TokenType ''DESCRIBE'')
     else if w = ''summary'' then Some (TokenType ''SUMMARY'')
     else if w = ''outliers'' then Some (TokenType ''OUTLIERS'')
     else if w = ''quantile'' then Some (TokenType ''QUANTILE'')
     else if w = ''normalize'' then Some (TokenType ''NORMALIZE'')
     else if w = ''binning'' then Some (TokenType ''BINNING'')
     else if w = ''rolling'' then Some (TokenType ''ROLLING'')
     else if w = ''hypothesis'' then Some (TokenType ''HYPOTHESIS'')
     else if w = ''boxplot'' then Some (TokenType ''BOXPLOT'')
     else if w = ''heatmap'' then Some (TokenType ''HEATMAP'')
     else if w = ''pairplot'' then Some (TokenType ''PAIRPLOT'')
     else if w = ''timeseries'' then Some (TokenType ''TIMESERIES'')
     else if w = ''pie'' then Some (TokenType ''PIE'')
     else if w = ''save'' then Some (TokenType ''SAVE'')
     else if w = ''export_plot'' then Some (TokenType ''EXPORT_PLOT'')
     else if w = ''info'' then Some (TokenType ''INFO'')
     else if w = ''unique'' then Some (TokenType ''UNIQUE'')
     else if w = ''value_counts'' then Some (TokenType ''VALUE_COUNTS'')
     else if w = ''show'' then Some (TokenType ''SHOW'')
     else if w = ''select_by_type'' then Some (TokenType ''SELECT_BY_TYPE'')
     else if w = ''head'' then Some (TokenType ''HEAD'')
     else if w = ''tail'' then Some (TokenType ''TAIL'')
     else if w = ''iloc'' then Some (TokenType ''ILOC'')
     else if w = ''loc'' then Some (TokenType ''LOC'')
     else if w = ''rename'' then Some (TokenType ''RENAME'')
     else if w = ''reorder'' then Some (TokenType ''REORDER'')
     else if w = ''filter_between'' then Some (TokenType ''FILTER_BETWEEN'')
     else if w = ''filter_isin'' then Some (TokenType ''FILTER_ISIN'')
     else if w = ''filter_contains'' then Some (TokenType ''FILTER_CONTAINS'')
     else if w = ''filter_startswith'' then Some (TokenType ''FILTER_STARTSWITH'')
     else if w = ''filter_endswith'' then Some (TokenType ''FILTER_ENDSWITH'')
     else if w = ''filter_regex'' then Some (TokenType ''FILTER_REGEX'')
     else if w = ''filter_null'' then Some (TokenType ''FILTER_NULL'')
     else if w = ''filter_notnull'' then Some (TokenType ''FILTER_NOTNULL'')
     else if w = ''filter_duplicates'' then Some (TokenType ''FILTER_DUPLICATES'')
     else if w = ''round'' then Some (TokenType ''ROUND'')
     else if w = ''abs'' then Some (TokenType ''ABS'')
     else if w = ''sqrt'' then Some (TokenType ''SQRT'')
     else if w = ''power'' then Some (TokenType ''POWER'')
     else if w = ''log'' then Some (TokenType ''LOG'')
     else if w = ''ceil'' then Some (TokenType ''CEIL'')
     else if w = ''floor'' then Some (TokenType ''FLOOR'')
     else if w = ''upper'' then Some (TokenType ''UPPER'')
     else if w = ''lower'' then Some (TokenType ''LOWER'')
     else if w = ''strip'' then Some (TokenType ''STRIP'')
     else if w = ''lstrip'' then Some (TokenType ''LSTRIP'')
     else if w = ''rstrip'' then Some (TokenType ''RSTRIP'')
     else if w = ''title'' then Some (TokenType ''TITLE'')
     else if w = ''capitalize'' then Some (TokenType ''CAPITALIZE'')
     else if w = ''replace'' then Some (TokenType ''REPLACE'')
     else if w = ''split'' then Some (TokenType ''SPLIT'')
     else if w = ''concat'' then Some (TokenType ''CONCAT'')
     else if w = ''substring'' then Some (TokenType ''SUBSTRING'')
     else if w = ''length'' then Some (TokenType ''LENGTH'')
     else if w = ''extract_regex'' then Some (TokenType ''EXTRACT_REGEX'')
     else if w = ''find'' then Some (TokenType ''FIND'')
     else if w = ''parse_datetime'' then Some (TokenType ''PARSE_DATETIME'')
     else if w = ''extract'' then Some (TokenType ''EXTRACT'')
     else if w = ''extract_year'' then Some (TokenType ''EXTRACT_YEAR'')
     else if w = ''extract_month'' then Some (TokenType ''EXTRACT_MONTH'')
     else if w = ''extract_day'' then Some (TokenType ''EXTRACT_DAY'')
     else if w = ''extract_hour'' then Some (TokenType ''EXTRACT_HOUR'')
     else if w = ''extract_minute'' then Some (TokenType ''EXTRACT_MINUTE'')
     else if w = ''extract_second'' then Some (TokenType ''EXTRACT_SECOND'')
     else if w = ''extract_dayofweek'' then Some (TokenType ''EXTRACT_DAYOFWEEK'')
     else if w = ''extract_dayofyear'' then Some (TokenType ''EXTRACT_DAYOFYEAR'')
     else if w = ''extract_weekofyear'' then Some (TokenType ''EXTRACT_WEEKOFYEAR'')
     else if w = ''extract_quarter'' then Some (TokenType ''EXTRACT_QUARTER'')
     else if w = ''date_diff'' then Some (TokenType ''DATE_DIFF'')
     else if w = ''date_add'' then Some (TokenType ''DATE_ADD'')
     else if w = ''date_subtract'' then Some (TokenType ''DATE_SUBTRACT'')
     else if w = ''format_datetime'' then Some (TokenType ''FORMAT_DATETIME'')
     else if w = ''astype'' then Some (TokenType ''ASTYPE'')
     else if w = ''to_numeric'' then Some (TokenType ''TO_NUMERIC'')
     else if w = ''one_hot_encode'' then Some (TokenType ''ONE_HOT_ENCODE'')
     else if w = ''label_encode'' then Some (TokenType ''LABEL_ENCODE'')
     else if w = ''standard_scale'' then Some (TokenType ''STANDARD_SCALE'')
     else if w = ''minmax_scale'' then Some (TokenType ''MINMAX_SCALE'')
     else if w = ''isnull'' then Some (TokenType ''ISNULL'')
     else if w = ''notnull'' then Some (TokenType ''NOTNULL'')
     else if w = ''count_na'' then Some (TokenType ''COUNT_NA'')
     else if w = ''fill_forward'' then Some (TokenType ''FILL_FORWARD'')
     else if w = ''fill_backward'' then Some (TokenType ''FILL_BACKWARD'')
     else if w = ''fill_mean'' then Some (TokenType ''FILL_MEAN'')
     else if w = ''fill_median'' then Some (TokenType ''FILL_MEDIAN'')
     else if w = ''fill_mode'' then Some (TokenType ''FILL_MODE'')
     else if w = ''interpolate'' then Some (TokenType ''INTERPOLATE'')
     else if w = ''duplicated'' then Some (TokenType ''DUPLICATED'')
     else if w = ''count_duplicates'' then Some (TokenType ''COUNT_DUPLICATES'')
     else if w = ''drop_duplicates'' then Some (TokenType ''DROP_DUPLICATES'')
     else if w = ''qcut'' then Some (TokenType ''QCUT'')
     else if w = ''cut'' then Some (TokenType ''CUT'')
     else if w = ''sort_index'' then Some (TokenType ''SORT_INDEX'')
     else if w = ''rank'' then Some (TokenType ''RANK'')
     else if w = ''filter_groups'' then Some (TokenType ''FILTER_GROUPS'')
     else if w = ''group_transform'' then Some (TokenType ''GROUP_TRANSFORM'')
     else if w = ''window_rank'' then Some (TokenType ''WINDOW_RANK'')
     else if w = ''window_lag'' then Some (TokenType ''WINDOW_LAG'')
     else if w = ''window_lead'' then Some (TokenType ''WINDOW_LEAD'')
     else if w = ''rolling_mean'' then Some (TokenType ''ROLLING_MEAN'')
     else if w = ''rolling_sum'' then Some (TokenType ''ROLLING_SUM'')
     else if w = ''rolling_std'' then Some (TokenType ''ROLLING_STD'')
     else if w = ''rolling_min'' then Some (TokenType ''ROLLING_MIN'')
     else if w = ''rolling_max'' then Some (TokenType ''ROLLING_MAX'')
     else if w = ''expanding_mean'' then Some (TokenType ''EXPANDING_MEAN'')
     else if w = ''expanding_sum'' then Some (TokenType ''EXPANDING_SUM'')
     else if w = ''expanding_min'' then Some (TokenType ''EXPANDING_MIN'')
     else if w = ''expanding_max'' then Some (TokenType ''EXPANDING_MAX'')
     else if w = ''cumsum'' then Some (TokenType ''CUMSUM'')
     else if w = ''cummax'' then Some (TokenType ''CUMMAX'')
     else if w = ''cummin'' then Some (TokenType ''CUMMIN'')
     else if w = ''cumprod'' then Some (TokenType ''CUMPROD'')
     else if w = ''pct_change'' then Some (TokenType ''PCT_CHANGE'')
     else if w = ''diff'' then Some (TokenType ''DIFF'')
     else if w = ''shift'' then Some (TokenType ''SHIFT'')
     else if w = ''pivot'' then Some (TokenType ''PIVOT'')
     else if w = ''pivot_table'' then Some (TokenType ''PIVOT_TABLE'')
     else if w = ''melt'' then Some (TokenType ''MELT'')
     else if w = ''stack'' then Some (TokenType ''STACK'')
     else if w = ''unstack'' then Some (TokenType ''UNSTACK'')
     else if w = ''transpose'' then Some (TokenType ''TRANSPOSE'')
     else if w = ''crosstab'' then Some (TokenType ''CROSSTAB'')
     else if w = ''merge'' then Some (TokenType ''MERGE'')
     else if w = ''concat_vertical'' then Some (TokenType ''CONCAT_VERTICAL'')
     else if w = ''concat_horizontal'' then Some (TokenType ''CONCAT_HORIZONTAL'')
     else if w = ''union'' then Some (TokenType ''UNION'')
     else if w = ''intersection'' then Some (TokenType ''INTERSECTION'')
     else if w = ''difference'' then Some (TokenType ''DIFFERENCE'')
     else if w = ''set_index'' then Some (TokenType ''SET_INDEX'')
     else if w = ''reset_index'' then Some (TokenType ''RESET_INDEX'')
     else if w = ''apply_row'' then Some (TokenType ''APPLY_ROW'')
     else if w = ''apply_column'' then Some (TokenType ''APPLY_COLUMN'')
     else if w = ''map'' then Some (TokenType ''MAP'')
     else if w = ''applymap'' then Some (TokenType ''APPLYMAP'')
     else if w = ''map_values'' then Some (TokenType ''MAP_VALUES'')
     else if w = ''resample'' then Some (TokenType ''RESAMPLE'')
     else if w = ''assign'' then Some (TokenType ''ASSIGN_CONST'')
     else if w = ''robust_scale'' then Some (TokenType ''ROBUST_SCALE'')
     else if w = ''maxabs_scale'' then Some (TokenType ''MAXABS_SCALE'')
     else if w = ''ordinal_encode'' then Some (TokenType ''ORDINAL_ENCODE'')
     else if w = ''target_encode'' then Some (TokenType ''TARGET_ENCODE'')
     else if w = ''assert_unique'' then Some (TokenType ''ASSERT_UNIQUE'')
     else if w = ''assert_no_nulls'' then Some (TokenType ''ASSERT_NO_NULLS'')
     else if w = ''assert_range'' then Some (TokenType ''ASSERT_RANGE'')
     else if w = ''reindex'' then Some (TokenType ''REINDEX'')
     else if w = ''set_multiindex'' then Some (TokenType ''SET_MULTIINDEX'')
     else if w = ''any'' then Some (TokenType ''ANY'')
     else if w = ''all'' then Some (TokenType ''ALL'')
     else if w = ''count_true'' then Some (TokenType ''COUNT_TRUE'')
     else if w = ''compare'' then Some (TokenType ''COMPARE'')
     else if w = ''csv'' then Some (TokenType ''CSV'')
     else if w = ''json'' then Some (TokenType ''JSON'')
     else if w = ''excel'' then Some (TokenType ''EXCEL'')
     else if w = ''parquet'' then Some (TokenType ''PARQUET'')
     else if w = ''sql'' then Some (TokenType ''SQL'')
     else if w = ''as'' then Some (TokenType ''AS'')
     else if w = ''by'' then Some (TokenType ''BY'')
     else if w = ''with'' then Some (TokenType ''WITH'')
     else if w = ''on'' then Some (TokenType ''ON'')
     else if w = ''from'' then Some (TokenType ''FROM'')
     else if w = ''agg'' then Some (TokenType ''AGG'')
     else if w = ''compute'' then Some (TokenType ''COMPUTE'')
     else if w = ''column'' then Some (TokenType ''COLUMN'')
     else if w = ''columns'' then Some (TokenType ''COLUMNS'')
     else if w = ''transform'' then Some (TokenType ''TRANSFORM'')
     else if w = ''value'' then Some (TokenType ''VALUE'')
     else if w = ''values'' then Some (TokenType ''VALUES'')
     else if w = ''n'' then Some (TokenType ''N'')
     else if w = ''random'' then Some (TokenType ''RANDOM'')
     else if w = ''method'' then Some (TokenType ''METHOD'')
     else if w = ''q'' then Some (TokenType ''Q'')
     else if w = ''bins'' then Some (TokenType ''BINS'')
     else if w = ''window'' then Some (TokenType ''WINDOW'')
     else if w = ''function'' then Some (TokenType ''FUNCTION'')
     else if w = ''vs'' then Some (TokenType ''VS'')
     else if w = ''test'' then Some (TokenType ''TEST'')
     else if w = ''x'' then Some (TokenType ''X'')
     else if w = ''y'' then Some (TokenType ''Y'')
     else if w = ''labels'' then Some (TokenType ''LABELS'')
     else if w = ''to'' then Some (TokenType ''TO'')
     else if w = ''format'' then Some (TokenType ''FORMAT'')
     else if w = ''filename'' then Some (TokenType ''FILENAME'')
     else if w = ''width'' then Some (TokenType ''WIDTH'')
     else if w = ''height'' then Some (TokenType ''HEIGHT'')
     else if w = ''desc'' then Some (TokenType ''DESC'')
     else if w = ''where'' then Some (TokenType ''WHERE'')
     else if w = ''asc'' then Some (TokenType ''ASC'')
     else if w = ''type'' then Some (TokenType ''TYPE'')
     else if w = ''rows'' then Some (TokenType ''ROWS'')
     else if w = ''mapping'' then Some (TokenType ''MAPPING'')
     else if w = ''order'' then Some (TokenType ''ORDER'')
     else if w = ''limit'' then Some (TokenType ''LIMIT'')
     else if w = ''offset'' then Some (TokenType ''OFFSET'')
     else if w = ''first'' then Some (TokenType ''FIRST'')
     else if w = ''last'' then Some (TokenType ''LAST'')
     else if w = ''min'' then Some (TokenType ''MIN'')
     else if w = ''max'' then Some (TokenType ''MAX'')
     else if w = ''pattern'' then Some (TokenType ''PATTERN'')
     else if w = ''keep'' then Some (TokenType ''KEEP'')
     else if w = ''subset'' then Some (TokenType ''SUBSET'')
     else if w = ''and'' then Some (TokenType ''AND'')
     else if w = ''or'' then Some (TokenType ''OR'')
     else if w = ''not'' then Some (TokenType ''NOT'')
     else if w = ''in'' then Some (TokenType ''IN'')
     else if w = ''between'' then Some (TokenType ''BETWEEN'')
     else if w = ''contains'' then Some (TokenType ''CONTAINS'')
     else if w = ''starts_with'' then Some (TokenType ''STARTS_WITH'')
     else if w = ''ends_with'' then Some (TokenType ''ENDS_WITH'')
     else if w = ''matches'' then Some (TokenType ''MATCHES'')
     else if w = ''is'' then Some (TokenType ''IS'')
     else if w = ''null'' then Some (TokenType ''NULL'')
     else if w = ''true'' then Some (TokenType ''BOOLEAN_LITERAL'')
     else if w = ''false'' then Some (TokenType ''BOOLEAN_LITERAL'')
     else if w = ''part'' then Some (TokenType ''PART'')
     else if w = ''decimals'' then Some (TokenType ''DECIMALS'')
     else if w = ''exponent'' then Some (TokenType ''EXPONENT'')
     else if w = ''base'' then Some (TokenType ''BASE'')
     else if w = ''separator'' then Some (TokenType ''SEPARATOR'')
     else if w = ''unit'' then Some (TokenType ''UNIT'')
     else if w = ''old'' then Some (TokenType ''OLD'')
     else if w = ''new'' then Some (TokenType ''NEW'')
     else if w = ''target'' then Some (TokenType ''TARGET'')
     else if w = ''chars'' then Some (TokenType ''CHARS'')
     else if w = ''group'' then Some (TokenType ''GROUP'')
     else if w = ''delimiter_str'' then Some (TokenType ''DELIMITER_STR'')
     else if w = ''start'' then Some (TokenType ''START'')
     else if w = ''end'' then Some (TokenType ''END'')
     else if w = ''dtype_str'' then Some (TokenType ''DTYPE_STR'')
     else if w = ''errors'' then Some (TokenType ''ERRORS'')
     else if w = ''strategy'' then Some (TokenType ''STRATEGY'')
     else if w = ''axis'' then Some (TokenType ''AXIS'')
     else if w = ''ascending'' then Some (TokenType ''ASCENDING'')
     else if w = ''periods'' then Some (TokenType ''PERIODS'')
     else if w = ''id_vars'' then Some (TokenType ''ID_VARS'')
     else if w = ''value_vars'' then Some (TokenType ''VALUE_VARS'')
     else if w = ''var_name'' then Some (TokenType ''VAR_NAME'')
     else if w = ''value_name'' then Some (TokenType ''VALUE_NAME'')
     else if w = ''left'' then Some (TokenType ''LEFT'')
     else if w = ''right'' then Some (TokenType ''RIGHT'')
     else if w = ''left_on'' then Some (TokenType ''LEFT_ON'')
     else if w = ''right_on'' then Some (TokenType ''RIGHT_ON'')
     else if w = ''suffixes'' then Some (TokenType ''SUFFIXES'')
     else if w = ''how'' then Some (TokenType ''HOW'')
     else if w = ''aggfunc'' then Some (TokenType ''AGGFUNC'')
     else if w = ''fill_value'' then Some (TokenType ''FILL_VALUE'')
     else if w = ''level'' then Some (TokenType ''LEVEL'')
     else if w = ''rule'' then Some (TokenType ''RULE'')
     else if w = ''condition'' then Some (TokenType ''CONDITION'')
     else if w = ''pct'' then Some (TokenType ''PCT'')
     else if w = ''drop'' then Some (TokenType ''DROP'')
     else if w = ''ignore_index'' then Some (TokenType ''IGNORE_INDEX'')
     else if w = ''delimiter'' then Some (TokenType ''DELIMITER'')
     else if w = ''encoding'' then Some (TokenType ''ENCODING'')
     else if w = ''header'' then Some (TokenType ''HEADER'')
     else if w = ''names'' then Some (TokenType ''NAMES'')
     else if w = ''usecols'' then Some (TokenType ''USECOLS'')
     else if w = ''dtype'' then Some (TokenType ''DTYPE'')
     else if w = ''skiprows'' then Some (TokenType ''SKIPROWS'')
     else if w = ''nrows'' then Some (TokenType ''NROWS'')
     else if w = ''na_values'' then Some (TokenType ''NA_VALUES'')
     else if w = ''thousands'' then Some (TokenType ''THOUSANDS'')
     else if w = ''decimal'' then Some (TokenType ''DECIMAL'')
     else if w = ''comment'' then Some (TokenType ''COMMENT_CHAR'')
     else if w = ''skip_blank_lines'' then Some (TokenType ''SKIP_BLANK_LINES'')
     else if w = ''parse_dates'' then Some (TokenType ''PARSE_DATES'')
     else if w = ''date_format'' then Some (TokenType ''DATE_FORMAT'')
     else if w = ''chunksize'' then Some (TokenType ''CHUNKSIZE'')
     else if w = ''compression'' then Some (TokenType ''COMPRESSION'')
     else if w = ''low_memory'' then Some (TokenType ''LOW_MEMORY'')
     else if w = ''memory_map'' then Some (TokenType ''MEMORY_MAP'')
     else if w = ''orient'' then Some (TokenType ''ORIENT'')
     else if w = ''typ'' then Some (TokenType ''TYP'')
     else if w = ''convert_axes'' then Some (TokenType ''CONVERT_AXES'')
     else if w = ''convert_dates'' then Some (TokenType ''CONVERT_DATES'')
     else if w = ''precise_float'' then Some (TokenType ''PRECISE_FLOAT'')
     else if w = ''date_unit'' then Some (TokenType ''DATE_UNIT'')
     else if w = ''lines'' then Some (TokenType ''LINES'')
     else if w = ''sheet'' then Some (TokenType ''SHEET'')
     else if w = ''sheet_name'' then Some (TokenType ''SHEET_NAME'')
     else if w = ''index_col'' then Some (TokenType ''INDEX_COL'')
     else if w = ''engine'' then Some (TokenType ''ENGINE'')
     else if w = ''converters'' then Some (TokenType ''CONVERTERS'')
     else if w = ''skipfooter'' then Some (TokenType ''SKIPFOOTER'')
     else if w = ''filters'' then Some (TokenType ''FILTERS'')
     else if w = ''use_nullable_dtypes'' then Some (TokenType ''USE_NULLABLE_DTYPES'')
     else if w = ''storage_options'' then Some (TokenType ''STORAGE_OPTIONS'')
     else if w = ''params'' then Some (TokenType ''PARAMS'')
     else if w = ''coerce_float'' then Some (TokenType ''COERCE_FLOAT'')
     else if w = ''index'' then Some (TokenType ''INDEX'')
     else if w = ''index_label'' then Some (TokenType ''INDEX_LABEL'')
     else if w = ''na_rep'' then Some (TokenType ''NA_REP'')
     else if w = ''mode'' then Some (TokenType ''MODE'')
     else if w = ''quoting'' then Some (TokenType ''QUOTING'')
     else if w = ''quotechar'' then Some (TokenType ''QUOTECHAR'')
     else if w = ''escapechar'' then Some (TokenType ''ESCAPECHAR'')
     else if w = ''lineterminator'' then Some (TokenType ''LINETERMINATOR'')
     else if w = ''float_format'' then Some (TokenType ''FLOAT_FORMAT'')
     else None)"

section \<open>Lexer (noeta\_lexer.py)\<close>

text \<open>
  The lexer state.  \<open>rest\<close> is the part of \<open>source\<close> from \<open>pos\<close> on
  (\<open>source[pos:]\<close>), so \<open>current_char\<close> is its first and \<open>peek_char\<close> its second
  character.
\<close>

record Lexer =
  source :: string
  rest :: string
  lx_line :: int
  lx_column :: int

definition new_Lexer :: "string \<Rightarrow> Lexer" where
  "new_Lexer src = \<lparr>source = src, rest = src, lx_line = 1, lx_column = 1\<rparr>"

definition current_char :: "Lexer \<Rightarrow> char option" where
  "current_char L = (case rest L of [] \<Rightarrow> None | c # cs \<Rightarrow> Some c)"

definition peek_char :: "Lexer \<Rightarrow> char option" where
  "peek_char L = (case rest L of c # d # cs \<Rightarrow> Some d | _ \<Rightarrow> None)"

definition get_current_line :: "Lexer \<Rightarrow> string" where
  "get_current_line L =
     (let lines = split_lines (source L)
      in if lx_line L > 0 \<and> lx_line L \<le> int (length lines)
         then lines ! nat (lx_line L - 1) else [])"

definition advance :: "Lexer \<Rightarrow> Lexer" where
  "advance L =
     (case rest L of
        [] \<Rightarrow> L\<lparr>lx_column := lx_column L + 1\<rparr>
      | c # cs \<Rightarrow>
          (if c = CHR 0x0A then L\<lparr>rest := cs, lx_line := lx_line L + 1, lx_column := 1\<rparr>
           else L\<lparr>rest := cs, lx_column := lx_column L + 1\<rparr>))"

lemma rest_advance [simp]: "rest (advance L) = tl (rest L)"
  by (simp add: advance_def split: list.splits)

lemma source_advance [simp]: "source (advance L) = source L"
  by (simp add: advance_def split: list.splits)

definition is_blank :: "char \<Rightarrow> bool" where
  "is_blank c = (c \<in> set [CHR '' '', CHR 0x09, CHR 0x0D])"

function skip_whitespace :: "Lexer \<Rightarrow> Lexer" where
  "skip_whitespace L =
     (case rest L of
        [] \<Rightarrow> L
      | c # cs \<Rightarrow> (if is_blank c then skip_whitespace (advance L) else L))"
  by pat_completeness auto
termination
  by (relation "measure (\<lambda>L. length (rest L))") auto

declare skip_whitespace.simps [simp del]

function skip_to_eol :: "Lexer \<Rightarrow> Lexer" where
  "skip_to_eol L =
     (case rest L of
        [] \<Rightarrow> L
      | c # cs \<Rightarrow> (if c \<noteq> CHR 0x0A then skip_to_eol (advance L) else L))"
  by pat_completeness auto
termination
  by (relation "measure (\<lambda>L. length (rest L))") auto

declare skip_to_eol.simps [simp del]

definition skip_comment :: "Lexer \<Rightarrow> Lexer" where
  "skip_comment L = (if current_char L = Some CHR ''#'' then skip_to_eol L else L)"

function read_string_loop :: "Lexer \<Rightarrow> string \<Rightarrow> string \<times> Lexer" where
  "read_string_loop L v =
     (case rest L of
        [] \<Rightarrow> (v, L)
      | c # cs \<Rightarrow>
          (if c = CHR 0x22 then (v, L)
           else if c = CHR 0x5C \<and> peek_char L = Some CHR 0x22
             then read_string_loop (advance (advance L)) (v @ dq)
           else read_string_loop (advance L) (v @ [c])))"
  by pat_completeness auto
termination
  by (relation "measure (\<lambda>(L, v). length (rest L))") auto

declare read_string_loop.simps [simp del]

text \<open>
  \<open>read_string\<close> skips the opening quote, runs the loop, and skips a closing quote
  when there is one.
\<close>

definition read_string :: "Lexer \<Rightarrow> string \<times> Lexer" where
  "read_string L =
     (case read_string_loop (advance L) [] of
        (v, L') \<Rightarrow> (v, if current_char L' = Some CHR 0x22 then advance L' else L'))"

function read_number_loop :: "Lexer \<Rightarrow> string \<Rightarrow> string \<times> Lexer" where
  "read_number_loop L v =
     (case rest L of
        [] \<Rightarrow> (v, L)
      | c # cs \<Rightarrow>
          (if isdigit c \<or> c = CHR ''.'' then read_number_loop (advance L) (v @ [c])
           else (v, L)))"
  by pat_completeness auto
termination
  by (relation "measure (\<lambda>(L, v). length (rest L))") auto

declare read_number_loop.simps [simp del]

definition digit_value :: "char \<Rightarrow> int" where
  "digit_value c =
     (case map_of (zip ''0123456789'' [0, 1, 2, 3, 4, 5, 6, 7, 8, 9]) c of
        Some d \<Rightarrow> d
      | None \<Rightarrow> 0)"

definition int_of_digits :: "string \<Rightarrow> int" where
  "int_of_digits v = foldl (\<lambda>a c. 10 * a + digit_value c) 0 v"

text \<open>
  \<open>float(value) if '.' in value else int(value)\<close>.  The text starts with a digit and holds
  digits and dots only, so \<open>float\<close> accepts it exactly when it has one dot; otherwise it
  raises \<open>ValueError\<close>.
\<close>

definition read_number :: "Lexer \<Rightarrow> exc + (PyVal \<times> Lexer)" where
  "read_number L =
     (case read_number_loop L [] of
        (v, L') \<Rightarrow>
          (if CHR ''.'' \<in> set v then
             (if length (filter (\<lambda>c. c = CHR ''.'') v) = 1 then Inr (VFloat v, L')
              else Inl (PyExc ''ValueError''
                          (''could not convert string to float: '' @ sq @ v @ sq)))
           else Inr (VInt (int_of_digits v), L')))"

function read_identifier_loop :: "Lexer \<Rightarrow> string \<Rightarrow> string \<times> Lexer" where
  "read_identifier_loop L v =
     (case rest L of
        [] \<Rightarrow> (v, L)
      | c # cs \<Rightarrow>
          (if isalnum c \<or> c = CHR ''_'' then read_identifier_loop (advance L) (v @ [c])
           else (v, L)))"
  by pat_completeness auto
termination
  by (relation "measure (\<lambda>(L, v). length (rest L))") auto

declare read_identifier_loop.simps [simp del]

definition read_identifier :: "Lexer \<Rightarrow> string \<times> Lexer" where
  "read_identifier L = read_identifier_loop L []"

lemma skip_whitespace_le: "length (rest (skip_whitespace L)) \<le> length (rest L)"
proof (induction L rule: skip_whitespace.induct)
  case (1 L)
  show ?case
  proof (cases "rest L")
    case Nil
    then show ?thesis by (simp add: skip_whitespace.simps [of L])
  next
    case (Cons c cs)
    show ?thesis
    proof (cases "is_blank c")
      case True
      with Cons "1.IH" [of c cs] show ?thesis
        by (simp add: skip_whitespace.simps [of L])
    next
      case False
      with Cons show ?thesis by (simp add: skip_whitespace.simps [of L])
    qed
  qed
qed

lemma skip_to_eol_le: "length (rest (skip_to_eol L)) \<le> length (rest L)"
proof (induction L rule: skip_to_eol.induct)
  case (1 L)
  show ?case
  proof (cases "rest L")
    case Nil
    then show ?thesis by (simp add: skip_to_eol.simps [of L])
  next
    case (Cons c cs)
    show ?thesis
    proof (cases "c \<noteq> CHR 0x0A")
      case True
      with Cons "1.IH" [of c cs] show ?thesis
        by (simp add: skip_to_eol.simps [of L])
    next
      case False
      with Cons show ?thesis by (simp add: skip_to_eol.simps [of L])
    qed
  qed
qed

lemma read_string_loop_le:
  "read_string_loop L v = (w, L') \<Longrightarrow> length (rest L') \<le> length (rest L)"
proof (induction L v arbitrary: w L' rule: read_string_loop.induct)
  case (1 L v)
  show ?case
  proof (cases "rest L")
    case Nil
    with "1.prems" show ?thesis by (simp add: read_string_loop.simps [of L])
  next
    case (Cons c cs)
    consider (quote) "c = CHR 0x22"
      | (escape) "c \<noteq> CHR 0x22" "c = CHR 0x5C \<and> peek_char L = Some CHR 0x22"
      | (plain) "c \<noteq> CHR 0x22" "\<not> (c = CHR 0x5C \<and> peek_char L = Some CHR 0x22)"
      by blast
    then show ?thesis
    proof cases
      case quote
      with Cons "1.prems" show ?thesis by (simp add: read_string_loop.simps [of L])
    next
      case escape
      with Cons "1.prems" have "read_string_loop (advance (advance L)) (v @ dq) = (w, L')"
        by (simp add: read_string_loop.simps [of L])
      from "1.IH"(1) [OF Cons escape(1) escape(2) this] Cons show ?thesis by simp
    next
      case plain
      with Cons "1.prems" have "read_string_loop (advance L) (v @ [c]) = (w, L')"
        by (simp add: read_string_loop.simps [of L])
      from "1.IH"(2) [OF Cons plain(1) plain(2) this] Cons show ?thesis by simp
    qed
  qed
qed

lemma read_number_loop_le:
  "read_number_loop L v = (w, L') \<Longrightarrow> length (rest L') \<le> length (rest L)"
proof (induction L v arbitrary: w L' rule: read_number_loop.induct)
  case (1 L v)
  show ?case
  proof (cases "rest L")
    case Nil
    with "1.prems" show ?thesis by (simp add: read_number_loop.simps [of L])
  next
    case (Cons c cs)
    show ?thesis
    proof (cases "isdigit c \<or> c = CHR ''.''")
      case True
      with Cons "1.prems" have "read_number_loop (advance L) (v @ [c]) = (w, L')"
        by (simp add: read_number_loop.simps [of L])
      from "1.IH" [OF Cons True this] Cons show ?thesis by simp
    next
      case False
      with Cons "1.prems" show ?thesis by (simp add: read_number_loop.simps [of L])
    qed
  qed
qed

lemma read_identifier_loop_le:
  "read_identifier_loop L v = (w, L') \<Longrightarrow> length (rest L') \<le> length (rest L)"
proof (induction L v arbitrary: w L' rule: read_identifier_loop.induct)
  case (1 L v)
  show ?case
  proof (cases "rest L")
    case Nil
    with "1.prems" show ?thesis by (simp add: read_identifier_loop.simps [of L])
  next
    case (Cons c cs)
    show ?thesis
    proof (cases "isalnum c \<or> c = CHR ''_''")
      case True
      with Cons "1.prems" have "read_identifier_loop (advance L) (v @ [c]) = (w, L')"
        by (simp add: read_identifier_loop.simps [of L])
      from "1.IH" [OF Cons True this] Cons show ?thesis by simp
    next
      case False
      with Cons "1.prems" show ?thesis by (simp add: read_identifier_loop.simps [of L])
    qed
  qed
qed

abbreviation Tok :: "string \<Rightarrow> PyVal \<Rightarrow> int \<Rightarrow> int \<Rightarrow> Token" where
  "Tok n v l c \<equiv> \<lparr>tok_type = TokenType n, tok_value = v, tok_line = l, tok_column = c\<rparr>"

definition unexpected_character :: "Lexer \<Rightarrow> char \<Rightarrow> NoetaError" where
  "unexpected_character L c =
     \<lparr>message = ''Unexpected character '' @ sq @ [c] @ sq,
      category = LEXER,
      context' = Some (new_ErrorContext (lx_line L) (lx_column L) 1 (get_current_line L)),
      hint = Some ''This character is not valid in Noeta syntax'',
      suggestion = None\<rparr>"

text \<open>
  The operator and punctuation section of \<open>next_token\<close>, in the order of the source;
  \<open>c\<close> is the current character, \<open>line\<close> and \<open>col\<close> the position before it.
\<close>

definition operator_token :: "Lexer \<Rightarrow> char \<Rightarrow> exc + (Token \<times> Lexer)" where
  "operator_token L c =
     (let line = lx_line L; col = lx_column L in
      if c = CHR ''='' \<and> peek_char L = Some CHR ''=''
        then Inr (Tok ''EQ'' (VStr ''=='') line col, advance (advance L))
      else if c = CHR ''!'' \<and> peek_char L = Some CHR ''=''
        then Inr (Tok ''NEQ'' (VStr ''!='') line col, advance (advance L))
      else if c = CHR ''<'' \<and> peek_char L = Some CHR ''=''
        then Inr (Tok ''LTE'' (VStr ''<='') line col, advance (advance L))
      else if c = CHR ''>'' \<and> peek_char L = Some CHR ''=''
        then Inr (Tok ''GTE'' (VStr ''>='') line col, advance (advance L))
      else if c = CHR ''<'' then Inr (Tok ''LT'' (VStr ''<'') line col, advance L)
      else if c = CHR ''>'' then Inr (Tok ''GT'' (VStr ''>'') line col, advance L)
      else if c = CHR ''='' then Inr (Tok ''ASSIGN'' (VStr ''='') line col, advance L)
      else if c = CHR ''+'' then Inr (Tok ''PLUS'' (VStr ''+'') line col, advance L)
      else if c = CHR ''-'' then Inr (Tok ''MINUS'' (VStr ''-'') line col, advance L)
      else if c = CHR ''*'' then Inr (Tok ''STAR'' (VStr ''*'') line col, advance L)
      else if c = CHR ''/'' then Inr (Tok ''SLASH'' (VStr ''/'') line col, advance L)
      else if c = CHR ''%'' then Inr (Tok ''PERCENT'' (VStr ''%'') line col, advance L)
      else if c = CHR ''*'' \<and> peek_char L = Some CHR ''*''
        then Inr (Tok ''EXPONENT'' (VStr ''**'') line col, advance (advance L))
      else if c = CHR ''.'' then Inr (Tok ''DOT'' (VStr ''.'') line col, advance L)
      else if c = CHR ''('' then Inr (Tok ''LPAREN'' (VStr ''('') line col, advance L)
      else if c = CHR '')'' then Inr (Tok ''RPAREN'' (VStr '')'') line col, advance L)
      else if c = CHR ''{'' then Inr (Tok ''LBRACE'' (VStr ''{'') line col, advance L)
      else if c = CHR ''}'' then Inr (Tok ''RBRACE'' (VStr ''}'') line col, advance L)
      else if c = CHR ''['' then Inr (Tok ''LBRACKET'' (VStr ''['') line col, advance L)
      else if c = CHR '']'' then Inr (Tok ''RBRACKET'' (VStr '']'') line col, advance L)
      else if c = CHR '':'' then Inr (Tok ''COLON'' (VStr '':'') line col, advance L)
      else if c = CHR '','' then Inr (Tok ''COMMA'' (VStr '','') line col, advance L)
      else Inl (NoetaExc (unexpected_character L c)))"

definition word_token :: "string \<Rightarrow> int \<Rightarrow> int \<Rightarrow> Token" where
  "word_token v line col =
     (if lower v = ''true'' then Tok ''BOOLEAN_LITERAL'' (VBool True) line col
      else if lower v = ''false'' then Tok ''BOOLEAN_LITERAL'' (VBool False) line col
      else \<lparr>tok_type = (case keywords_dict (lower v) of
                          Some t \<Rightarrow> t
                        | None \<Rightarrow> TokenType ''IDENTIFIER''),
            tok_value = VStr v, tok_line = line, tok_column = col\<rparr>)"

lemma skip_whitespace_less:
  "rest L = c # cs \<Longrightarrow> is_blank c \<Longrightarrow> length (rest (skip_whitespace L)) < Suc (length cs)"
  using skip_whitespace_le [of "advance L"] by (simp add: skip_whitespace.simps [of L])

lemma skip_comment_less:
  "rest L = CHR ''#'' # cs \<Longrightarrow> length (rest (skip_comment L)) < Suc (length cs)"
  using skip_to_eol_le [of "advance L"]
  by (simp add: skip_comment_def current_char_def skip_to_eol.simps [of L])

function next_token :: "Lexer \<Rightarrow> exc + (Token \<times> Lexer)" where
  "next_token L =
     (case rest L of
        [] \<Rightarrow> Inr (Tok ''EOF'' VNone (lx_line L) (lx_column L), L)
      | c # cs \<Rightarrow>
          (if is_blank c then next_token (skip_whitespace L)
           else if c = CHR 0x0A
             then Inr (Tok ''NEWLINE'' (VStr nl) (lx_line L) (lx_column L), advance L)
           else if c = CHR ''#'' then next_token (skip_comment L)
           else if c = CHR 0x22
             then (case read_string L of
                     (v, L') \<Rightarrow> Inr (Tok ''STRING_LITERAL'' (VStr v) (lx_line L) (lx_column L), L'))
           else if isdigit c
             then (case read_number L of
                     Inl e \<Rightarrow> Inl e
                   | Inr (v, L') \<Rightarrow> Inr (Tok ''NUMERIC_LITERAL'' v (lx_line L) (lx_column L), L'))
           else if isalpha c \<or> c = CHR ''_''
             then (case read_identifier L of
                     (v, L') \<Rightarrow> Inr (word_token v (lx_line L) (lx_column L), L'))
           else operator_token L c))"
  by pat_completeness auto
termination
  by (relation "measure (\<lambda>L. length (rest L))")
     (auto simp: skip_whitespace_less skip_comment_less)

declare next_token.simps [simp del]

lemma operator_token_progress:
  "operator_token L c = Inr (tok, L') \<Longrightarrow> rest L = c # cs \<Longrightarrow> length (rest L') \<le> length cs"
  unfolding operator_token_def Let_def
  by (simp split: if_splits; fastforce)

lemma read_string_progress:
  assumes "read_string L = (v, L')" and "rest L = c # cs"
  shows "length (rest L') \<le> length cs"
proof -
  obtain w L1 where loop: "read_string_loop (advance L) [] = (w, L1)"
    by (cases "read_string_loop (advance L) []") auto
  from read_string_loop_le [OF loop] assms(2) have "length (rest L1) \<le> length cs" by simp
  moreover from assms(1) loop have "L' = (if current_char L1 = Some CHR 0x22 then advance L1 else L1)"
    by (simp add: read_string_def)
  ultimately show ?thesis by (auto split: if_splits)
qed

lemma read_number_progress:
  assumes "read_number L = Inr (v, L')" and "rest L = c # cs" and "isdigit c"
  shows "length (rest L') \<le> length cs"
proof -
  obtain w L1 where loop: "read_number_loop L [] = (w, L1)"
    by (cases "read_number_loop L []") auto
  with assms(2,3) have "read_number_loop (advance L) [c] = (w, L1)"
    by (simp add: read_number_loop.simps [of L])
  from read_number_loop_le [OF this] assms(2) have "length (rest L1) \<le> length cs" by simp
  moreover from assms(1) loop have "L' = L1"
    by (auto simp: read_number_def split: if_splits)
  ultimately show ?thesis by simp
qed

lemma read_identifier_progress:
  assumes "read_identifier L = (v, L')" and "rest L = c # cs" and "isalpha c \<or> c = CHR ''_''"
  shows "length (rest L') \<le> length cs"
proof -
  from assms have "read_identifier_loop (advance L) [c] = (v, L')"
    by (auto simp: read_identifier_def isalnum_def read_identifier_loop.simps [of L])
  from read_identifier_loop_le [OF this] assms(2) show ?thesis by simp
qed

lemma next_token_progress:
  "next_token L = Inr (tok, L') \<Longrightarrow> tok_type tok \<noteq> TokenType ''EOF''
     \<Longrightarrow> length (rest L') < length (rest L)"
proof (induction L arbitrary: tok L' rule: next_token.induct)
  case (1 L)
  show ?case
  proof (cases "rest L")
    case Nil
    with "1.prems" show ?thesis by (auto simp: next_token.simps [of L])
  next
    case (Cons c cs)
    consider (blank) "is_blank c"
      | (newline) "\<not> is_blank c" "c = CHR 0x0A"
      | (comment) "\<not> is_blank c" "c \<noteq> CHR 0x0A" "c = CHR ''#''"
      | (quote) "\<not> is_blank c" "c \<noteq> CHR 0x0A" "c \<noteq> CHR ''#''" "c = CHR 0x22"
      | (digit) "\<not> is_blank c" "c \<noteq> CHR 0x0A" "c \<noteq> CHR ''#''" "c \<noteq> CHR 0x22" "isdigit c"
      | (word) "\<not> is_blank c" "c \<noteq> CHR 0x0A" "c \<noteq> CHR ''#''" "c \<noteq> CHR 0x22" "\<not> isdigit c"
          "isalpha c \<or> c = CHR ''_''"
      | (operator) "\<not> is_blank c" "c \<noteq> CHR 0x0A" "c \<noteq> CHR ''#''" "c \<noteq> CHR 0x22"
          "\<not> isdigit c" "\<not> (isalpha c \<or> c = CHR ''_'')"
      by blast
    then show ?thesis
    proof cases
      case blank
      with Cons "1.prems" have "next_token (skip_whitespace L) = Inr (tok, L')"
        by (simp add: next_token.simps [of L])
      from "1.IH"(1) [OF Cons blank this "1.prems"(2)] skip_whitespace_less [OF Cons blank] Cons
      show ?thesis by simp
    next
      case newline
      with Cons "1.prems" show ?thesis by (auto simp: next_token.simps [of L])
    next
      case comment
      with Cons "1.prems" have "next_token (skip_comment L) = Inr (tok, L')"
        by (simp add: next_token.simps [of L])
      from "1.IH"(2) [OF Cons comment this "1.prems"(2)] skip_comment_less [of L cs] Cons comment
      show ?thesis by simp
    next
      case quote
      obtain v L1 where rs: "read_string L = (v, L1)" by (cases "read_string L") auto
      with quote Cons "1.prems" have "L' = L1" by (simp add: next_token.simps [of L])
      with read_string_progress [OF rs Cons] Cons show ?thesis by simp
    next
      case digit
      with Cons "1.prems" obtain v where "read_number L = Inr (v, L')"
        by (auto simp: next_token.simps [of L] split: sum.splits)
      from read_number_progress [OF this Cons digit(5)] Cons show ?thesis by simp
    next
      case word
      obtain v L1 where ri: "read_identifier L = (v, L1)" by (cases "read_identifier L") auto
      with word Cons "1.prems" have "L' = L1" by (auto simp: next_token.simps [of L])
      with read_identifier_progress [OF ri Cons word(6)] Cons show ?thesis by simp
    next
      case operator
      with Cons "1.prems" have "operator_token L c = Inr (tok, L')"
        by (simp add: next_token.simps [of L])
      from operator_token_progress [OF this Cons] Cons show ?thesis by simp
    qed
  qed
qed

text \<open>\<open>tokenize\<close>: newline tokens are dropped, the end marker ends the loop.\<close>

function tokenize_loop :: "Lexer \<Rightarrow> Token list \<Rightarrow> exc + Token list" where
  "tokenize_loop L tokens =
     (case next_token L of
        Inl e \<Rightarrow> Inl e
      | Inr (token, L') \<Rightarrow>
          (let tokens' = (if tok_type token \<noteq> TokenType ''NEWLINE'' then tokens @ [token]
                          else tokens)
           in if tok_type token = TokenType ''EOF'' then Inr tokens'
              else tokenize_loop L' tokens'))"
  by pat_completeness auto
termination
  by (relation "measure (\<lambda>(L, tokens). length (rest L))")
     (auto simp: next_token_progress)

declare tokenize_loop.simps [simp del]

definition tokenize :: "string \<Rightarrow> exc + Token list" where
  "tokenize src = tokenize_loop (new_Lexer src) []"

section \<open>Syntax trees (noeta\_ast.py)\<close>

text \<open>
  Every node object carries \<open>line\<close> and \<open>column\<close>, which \<open>ASTNode.__post_init__\<close> sets to 0,
  next to the fields of its class.  Classes that declare a field called \<open>column\<close> of their
  own (\<open>BetweenNode\<close>, \<open>InNode\<close>, \<open>StringMatchNode\<close>, \<open>NullCheckNode\<close>, \<open>PowerNode\<close>) keep the
  column name there; no embedded routine reads the position of such a node.

  The statement classes embedded here are those of \<open>load "file" as a\<close>, \<open>select\<close>,
  \<open>filter\<close>, \<open>join\<close>, \<open>describe\<close>, \<open>union\<close>, \<open>mutate\<close> and \<open>power\<close>, with the
  condition classes of the \<open>where\<close> clause and the expression classes.  \<open>OtherNode\<close>
  stands for an object of any other class, with the class name.
\<close>

datatype ASTNode = ASTNode (node_line: int) (node_column: int) (node_fields: NodeFields)
and NodeFields =
    ProgramNode "ASTNode list"
  | LoadNode string string "string option" "(PyVal \<times> PyVal) list option"
  | SelectNode string "string list" "string option"
  | UpdatedFilterNode string ASTNode "string option"
  | JoinNode string string string "string option"
  | DescribeNode string "string list option"
  | UnionNode string string "string option"
  | MutateNode string "ASTNode list" "string option"
  | MutationNode string "string + ASTNode"
  | PowerNode string string "string option" PyVal
  | BinaryConditionNode ASTNode string ASTNode
  | NotConditionNode ASTNode
  | ComparisonNode string string PyVal
  | BetweenNode string PyVal PyVal
  | InNode string "PyVal list"
  | StringMatchNode string string string
  | NullCheckNode string bool
  | BinaryOpNode ASTNode string ASTNode
  | UnaryOpNode string ASTNode
  | LiteralNode PyVal
  | IdentifierNode string
  | FunctionCallNode string "ASTNode list"
  | ConditionalExprNode ASTNode ASTNode ASTNode
  | OtherNode string PyVal

text \<open>Constructing a node object: the dataclass constructor followed by \<open>__post_init__\<close>.\<close>

definition new_node :: "NodeFields \<Rightarrow> ASTNode" where
  "new_node f = ASTNode 0 0 f"

definition set_position :: "int \<Rightarrow> int \<Rightarrow> ASTNode \<Rightarrow> ASTNode" where
  "set_position l c n = ASTNode l c (node_fields n)"

fun class_name :: "NodeFields \<Rightarrow> string" where
  "class_name (ProgramNode ss) = ''ProgramNode''"
| "class_name (LoadNode f a fmt ps) = ''LoadNode''"
| "class_name (SelectNode s cs a) = ''SelectNode''"
| "class_name (UpdatedFilterNode s c a) = ''UpdatedFilterNode''"
| "class_name (JoinNode a1 a2 c a) = ''JoinNode''"
| "class_name (DescribeNode s cs) = ''DescribeNode''"
| "class_name (UnionNode l r a) = ''UnionNode''"
| "class_name (MutateNode s ms a) = ''MutateNode''"
| "class_name (MutationNode c e) = ''MutationNode''"
| "class_name (PowerNode s c a e) = ''PowerNode''"
| "class_name (BinaryConditionNode l opr r) = ''BinaryConditionNode''"
| "class_name (NotConditionNode c) = ''NotConditionNode''"
| "class_name (ComparisonNode l opr r) = ''ComparisonNode''"
| "class_name (BetweenNode c lo hi) = ''BetweenNode''"
| "class_name (InNode c vs) = ''InNode''"
| "class_name (StringMatchNode c m p) = ''StringMatchNode''"
| "class_name (NullCheckNode c b) = ''NullCheckNode''"
| "class_name (BinaryOpNode l opr r) = ''BinaryOpNode''"
| "class_name (UnaryOpNode opr e) = ''UnaryOpNode''"
| "class_name (LiteralNode v) = ''LiteralNode''"
| "class_name (IdentifierNode n) = ''IdentifierNode''"
| "class_name (FunctionCallNode f args) = ''FunctionCallNode''"
| "class_name (ConditionalExprNode c t e) = ''ConditionalExprNode''"
| "class_name (OtherNode n v) = n"

section \<open>Parser (noeta\_parser.py)\<close>

subsection \<open>What is taken as given\<close>

text \<open>
  Of the Python runtime and the machine, the embedded code uses three things:
  whether standard error is a terminal, what a file's header says (asked only when type
  checking is enabled, and answered by a dictionary in every case), and Python's \<open>repr\<close>
  of a token object, which two messages interpolate.
\<close>

datatype DataType = STRING | NUMERIC | DATETIME | BOOLEAN | UNKNOWN

record ColumnInfo =
  col_name :: string
  dtype :: DataType
  nullable :: bool

record env =
  supports_color :: bool
  file_schema :: "string \<Rightarrow> string option \<Rightarrow> (string \<times> ColumnInfo) list"
  repr_Token :: "Token \<Rightarrow> string"

record Parser =
  tokens :: "Token list"
  pos :: nat
  source_code :: string
  source_lines :: "string list"

definition new_Parser :: "Token list \<Rightarrow> string \<Rightarrow> Parser" where
  "new_Parser ts src =
     \<lparr>tokens = ts, pos = 0, source_code = src,
      source_lines = (if src \<noteq> [] then split_lines src else [])\<rparr>"

definition current_token :: "Parser \<Rightarrow> Token option" where
  "current_token P = (if pos P \<ge> length (tokens P) then None else Some (tokens P ! pos P))"

definition padvance :: "Parser \<Rightarrow> Parser" where
  "padvance P = P\<lparr>pos := pos P + 1\<rparr>"

definition match :: "Parser \<Rightarrow> string list \<Rightarrow> bool" where
  "match P token_types =
     (case current_token P of
        None \<Rightarrow> False
      | Some token \<Rightarrow> name (tok_type token) \<in> set token_types)"

definition get_source_line :: "Parser \<Rightarrow> int \<Rightarrow> string" where
  "get_source_line P line_num =
     (if source_lines P = [] \<or> line_num < 1 \<or> line_num > int (length (source_lines P)) then []
      else source_lines P ! nat (line_num - 1))"

text \<open>\<open>len(v)\<close> and the truth value of \<open>v\<close>.\<close>

fun type_name :: "PyVal \<Rightarrow> string" where
  "type_name VNone = ''NoneType''"
| "type_name (VBool b) = ''bool''"
| "type_name (VInt i) = ''int''"
| "type_name (VFloat f) = ''float''"
| "type_name (VStr s) = ''str''"
| "type_name (VList xs) = ''list''"
| "type_name (VDict kvs) = ''dict''"

fun py_len :: "PyVal \<Rightarrow> exc + int" where
  "py_len (VStr s) = Inr (int (length s))"
| "py_len (VList xs) = Inr (int (length xs))"
| "py_len (VDict kvs) = Inr (int (length kvs))"
| "py_len v = Inl (PyExc ''TypeError'' (''object of type '' @ sq @ type_name v @ sq @ '' has no len()''))"

fun truthy :: "PyVal \<Rightarrow> bool" where
  "truthy VNone = False"
| "truthy (VBool b) = b"
| "truthy (VInt i) = (i \<noteq> 0)"
| "truthy (VFloat f) = (filter (\<lambda>c. c \<in> set ''123456789'') f \<noteq> [])"
| "truthy (VStr s) = (s \<noteq> [])"
| "truthy (VList xs) = (xs \<noteq> [])"
| "truthy (VDict kvs) = (kvs \<noteq> [])"

text \<open>\<open>get_token_type_description\<close>, behind \<open>Parser._friendly_token_name\<close>.\<close>

definition descriptions :: "(string \<times> string) list" where
  "descriptions =
     [(''IDENTIFIER'', ''dataset or column name''),
      (''STRING_LITERAL'', ''string value''),
      (''NUMERIC_LITERAL'', ''number''),
      (''INTEGER'', ''integer number''),
      (''FLOAT'', ''decimal number''),
      (''BOOLEAN'', ''true or false''),
      (''NONE'', ''None value''),
      (''LPAREN'', ''opening parenthesis (''),
      (''RPAREN'', ''closing parenthesis )''),
      (''LBRACE'', ''opening brace {''),
      (''RBRACE'', ''closing brace }''),
      (''LBRACKET'', ''opening bracket [''),
      (''RBRACKET'', ''closing bracket ]''),
      (''COMMA'', ''comma''),
      (''DOT'', ''dot''),
      (''EQUALS'', ''equals sign =''),
      (''COLON'', ''colon :''),
      (''SEMICOLON'', ''semicolon''),
      (''AS'', dq @ ''as'' @ dq @ '' keyword''),
      (''WITH'', dq @ ''with'' @ dq @ '' keyword''),
      (''WHERE'', dq @ ''where'' @ dq @ '' keyword''),
      (''COLUMN'', dq @ ''column'' @ dq @ '' keyword''),
      (''COLUMNS'', dq @ ''columns'' @ dq @ '' keyword''),
      (''EOF'', ''end of file'')]"

definition get_token_type_description :: "string \<Rightarrow> string" where
  "get_token_type_description token_type_name =
     (case map_of descriptions token_type_name of
        Some d \<Rightarrow> d
      | None \<Rightarrow> map (\<lambda>c. if c = CHR ''_'' then CHR '' '' else c) (lower token_type_name))"

definition friendly_token_name :: "string \<Rightarrow> string" where
  "friendly_token_name token_type = get_token_type_description token_type"

definition create_error_context :: "Parser \<Rightarrow> Token \<Rightarrow> exc + ErrorContext" where
  "create_error_context P token =
     (let source_line = get_source_line P (tok_line token) in
      if truthy (tok_value token) then
        (case py_len (tok_value token) of
           Inl e \<Rightarrow> Inl e
         | Inr n \<Rightarrow> Inr (new_ErrorContext (tok_line token) (tok_column token) n source_line))
      else Inr (new_ErrorContext (tok_line token) (tok_column token) 1 source_line))"

text \<open>
  \<open>expect(token_type, context)\<close>.  At the end of input the position reported is that
  past the last consumed token, which takes \<open>len\<close> of that token's value; on a
  mismatch the span is \<open>len\<close> of the current token's value.
\<close>

definition unexpected_eof :: "Parser \<Rightarrow> string \<Rightarrow> string \<Rightarrow> exc" where
  "unexpected_eof P token_type ctx =
     (let context_msg = (if ctx \<noteq> [] then '' in '' @ ctx else []);
          msg = ''Unexpected end of file'' @ context_msg @ ''. Expected ''
                @ friendly_token_name token_type;
          h = ''The file ended before the '' @ (if ctx \<noteq> [] then ctx else ''statement'')
              @ '' was complete''
      in if pos P > 0 \<and> pos P - 1 < length (tokens P) then
           (let last_token = tokens P ! (pos P - 1) in
            case py_len (tok_value last_token) of
              Inl e \<Rightarrow> e
            | Inr n \<Rightarrow>
                NoetaExc \<lparr>message = msg, category = SYNTAX,
                  context' = Some (new_ErrorContext (tok_line last_token)
                               (tok_column last_token + n) 1
                               (get_source_line P (tok_line last_token))),
                  hint = Some h, suggestion = None\<rparr>)
         else NoetaExc \<lparr>message = msg, category = SYNTAX, context' = None,
                hint = Some h, suggestion = None\<rparr>)"

definition expect :: "Parser \<Rightarrow> string \<Rightarrow> string \<Rightarrow> exc + (Token \<times> Parser)" where
  "expect P token_type ctx =
     (case current_token P of
        None \<Rightarrow> Inl (unexpected_eof P token_type ctx)
      | Some token \<Rightarrow>
          (if name (tok_type token) = ''EOF'' then Inl (unexpected_eof P token_type ctx)
           else if name (tok_type token) \<noteq> token_type then
             (case create_error_context P token of
                Inl e \<Rightarrow> Inl e
              | Inr ectx \<Rightarrow>
                  Inl (NoetaExc
                    \<lparr>message = ''Expected '' @ friendly_token_name token_type @ '', got ''
                               @ friendly_token_name (name (tok_type token))
                               @ (if ctx \<noteq> [] then '' in '' @ ctx else []),
                     category = SYNTAX, context' = Some ectx,
                     hint = Some (''Check the syntax for ''
                                  @ (if ctx \<noteq> [] then ctx else ''this operation'')),
                     suggestion = None\<rparr>))
           else Inr (token, padvance P)))"

text \<open>How many tokens are left; every routine that succeeds leaves fewer.\<close>

definition remaining :: "Parser \<Rightarrow> nat" where
  "remaining P = length (tokens P) - pos P"

lemma expect_progress:
  "expect P t c = Inr (tok, P') \<Longrightarrow> remaining P' < remaining P \<and> tokens P' = tokens P"
  by (auto simp: expect_def Let_def current_token_def padvance_def remaining_def
           split: if_splits option.splits sum.splits)

lemma match_remaining: "match P ts \<Longrightarrow> remaining (padvance P) < remaining P"
  by (auto simp: match_def current_token_def padvance_def remaining_def split: if_splits)

lemma tokens_padvance [simp]: "tokens (padvance P) = tokens P"
  by (simp add: padvance_def)
subsection \<open>Values\<close>

text \<open>
  The recursive routines below pass the parser state returned by one call on to the
  next.  Where the next call is recursive, the state is first compared with the one the
  routine started from; \<open>remaining_never_grows\<close> and its companions show that the
  comparison always succeeds, so the branch \<open>unreachable\<close> is never taken.
\<close>

definition unreachable :: exc where
  "unreachable = PyExc ''Unreachable'' []"

lemma is_measure_remaining [measure_function]: "is_measure remaining"
  by (rule is_measure_trivial)

fun is_str :: "PyVal \<Rightarrow> bool" where
  "is_str (VStr s) = True"
| "is_str v = False"

text \<open>
  The string carried by an \<open>IDENTIFIER\<close>, keyword or \<open>STRING_LITERAL\<close> token; the lexer
  gives these tokens no other kind of value.
\<close>

fun str_value :: "PyVal \<Rightarrow> string" where
  "str_value (VStr s) = s"
| "str_value v = []"

definition no_attribute :: "PyVal \<Rightarrow> string \<Rightarrow> exc" where
  "no_attribute v attr =
     PyExc ''AttributeError''
       (sq @ type_name v @ sq @ '' object has no attribute '' @ sq @ attr @ sq)"

text \<open>\<open>result[key] = value\<close> on a dictionary kept in insertion order.\<close>

definition dict_set :: "'k \<Rightarrow> 'v \<Rightarrow> ('k \<times> 'v) list \<Rightarrow> ('k \<times> 'v) list" where
  "dict_set k v d = AList.update k v d"

function parse_value :: "Parser \<Rightarrow> exc + (PyVal \<times> Parser)"
  and parse_list_value :: "Parser \<Rightarrow> exc + (PyVal list \<times> Parser)"
  and parse_list_items :: "Parser \<Rightarrow> PyVal list \<Rightarrow> exc + (PyVal list \<times> Parser)"
  and parse_dict_value :: "Parser \<Rightarrow> exc + ((PyVal \<times> PyVal) list \<times> Parser)"
  and parse_dict_items ::
    "Parser \<Rightarrow> (PyVal \<times> PyVal) list \<Rightarrow> exc + ((PyVal \<times> PyVal) list \<times> Parser)"
where
  "parse_value P =
     (case current_token P of
        None \<Rightarrow> Inl (PyExc ''SyntaxError'' ''Expected value'')
      | Some token \<Rightarrow>
          (let n = name (tok_type token); v = tok_value token in
           if n = ''STRING_LITERAL'' then Inr (v, padvance P)
           else if n = ''NUMERIC_LITERAL'' then Inr (v, padvance P)
           else if n = ''IDENTIFIER'' \<and> \<not> is_str v then Inl (no_attribute v ''lower'')
           else if n = ''IDENTIFIER'' \<and> lower (str_value v) \<in> set [''true'', ''false'']
             then Inr (VBool (lower (str_value v) = ''true''), padvance P)
           else if n = ''IDENTIFIER'' \<and> lower (str_value v) \<in> set [''none'', ''null'']
             then Inr (VNone, padvance P)
           else if n = ''LBRACKET''
             then (case parse_list_value P of
                     Inl e \<Rightarrow> Inl e
                   | Inr (vs, P') \<Rightarrow> Inr (VList vs, P'))
           else if n = ''LBRACE''
             then (case parse_dict_value P of
                     Inl e \<Rightarrow> Inl e
                   | Inr (d, P') \<Rightarrow> Inr (VDict d, P'))
           else if n = ''IDENTIFIER'' then Inr (v, padvance P)
           else Inl (PyExc ''SyntaxError''
                       (''Unexpected token type for value: TokenType.'' @ n))))"
| "parse_list_value P =
     (case expect P ''LBRACKET'' [] of
        Inl e \<Rightarrow> Inl e
      | Inr (t, P1) \<Rightarrow>
          (if match P1 [''RBRACKET''] then Inr ([], padvance P1)
           else
             (case parse_value P1 of
                Inl e \<Rightarrow> Inl e
              | Inr (v, P2) \<Rightarrow>
                  (if remaining P2 < remaining P then
                     (case parse_list_items P2 [v] of
                        Inl e \<Rightarrow> Inl e
                      | Inr (vs, P3) \<Rightarrow>
                          (case expect P3 ''RBRACKET'' [] of
                             Inl e \<Rightarrow> Inl e
                           | Inr (t', P4) \<Rightarrow> Inr (vs, P4)))
                   else Inl unreachable))))"
| "parse_list_items P vs =
     (if match P [''COMMA''] then
        (if match (padvance P) [''RBRACKET''] then Inr (vs, padvance P)
         else
           (case parse_value (padvance P) of
              Inl e \<Rightarrow> Inl e
            | Inr (v, P2) \<Rightarrow>
                (if remaining P2 < remaining P then parse_list_items P2 (vs @ [v])
                 else Inl unreachable)))
      else Inr (vs, P))"
| "parse_dict_value P =
     (case expect P ''LBRACE'' [] of
        Inl e \<Rightarrow> Inl e
      | Inr (t, P1) \<Rightarrow>
          (if match P1 [''RBRACE''] then Inr ([], padvance P1)
           else
             (case (if match P1 [''STRING_LITERAL''] then expect P1 ''STRING_LITERAL'' []
                    else expect P1 ''IDENTIFIER'' []) of
                Inl e \<Rightarrow> Inl e
              | Inr (key, P2) \<Rightarrow>
                  (case expect P2 ''COLON'' [] of
                     Inl e \<Rightarrow> Inl e
                   | Inr (t', P3) \<Rightarrow>
                       (case parse_value P3 of
                          Inl e \<Rightarrow> Inl e
                        | Inr (v, P4) \<Rightarrow>
                            (if remaining P4 < remaining P then
                               (case parse_dict_items P4 (dict_set (tok_value key) v []) of
                                  Inl e \<Rightarrow> Inl e
                                | Inr (d, P5) \<Rightarrow>
                                    (case expect P5 ''RBRACE'' [] of
                                       Inl e \<Rightarrow> Inl e
                                     | Inr (t'', P6) \<Rightarrow> Inr (d, P6)))
                             else Inl unreachable))))))"
| "parse_dict_items P d =
     (if match P [''COMMA''] then
        (if match (padvance P) [''RBRACE''] then Inr (d, padvance P)
         else
           (case (if match (padvance P) [''STRING_LITERAL'']
                  then expect (padvance P) ''STRING_LITERAL'' []
                  else expect (padvance P) ''IDENTIFIER'' []) of
              Inl e \<Rightarrow> Inl e
            | Inr (key, P2) \<Rightarrow>
                (case expect P2 ''COLON'' [] of
                   Inl e \<Rightarrow> Inl e
                 | Inr (t', P3) \<Rightarrow>
                     (case parse_value P3 of
                        Inl e \<Rightarrow> Inl e
                      | Inr (v, P4) \<Rightarrow>
                          (if remaining P4 < remaining P
                           then parse_dict_items P4 (dict_set (tok_value key) v d)
                           else Inl unreachable)))))
      else Inr (d, P))"
  by pat_completeness auto
termination
  by (lexicographic_order dest!: expect_progress match_remaining split: if_splits)

declare parse_value.simps [simp del] parse_list_value.simps [simp del]
  parse_list_items.simps [simp del] parse_dict_value.simps [simp del]
  parse_dict_items.simps [simp del]

lemma padvance_remaining: "remaining (padvance P) \<le> remaining P"
  by (simp add: padvance_def remaining_def)

lemma current_token_remaining:
  "current_token P = Some t \<Longrightarrow> remaining (padvance P) < remaining P"
  by (auto simp: current_token_def padvance_def remaining_def split: if_splits)

lemma expect_remaining: "expect P t c = Inr (tok, P') \<Longrightarrow> remaining P' < remaining P"
  using expect_progress by blast

lemma bind_InrE:
  assumes "(case r of Inl e \<Rightarrow> Inl e | Inr (x, Q) \<Rightarrow> f x Q) = Inr y"
  obtains x Q where "r = Inr (x, Q)" and "f x Q = Inr y"
  using assms by (cases r) (auto split: prod.splits)

subsection \<open>The where clause\<close>

definition current_repr :: "env \<Rightarrow> Parser \<Rightarrow> string" where
  "current_repr E P = (case current_token P of None \<Rightarrow> ''None'' | Some t \<Rightarrow> repr_Token E t)"

definition comparison_tokens :: "string list" where
  "comparison_tokens = [''EQ'', ''NEQ'', ''LT'', ''GT'', ''LTE'', ''GTE'']"

definition op_map :: "(string \<times> string) list" where
  "op_map =
     [(''EQ'', ''==''), (''NEQ'', ''!=''), (''LT'', ''<''), (''GT'', ''>''),
      (''LTE'', ''<=''), (''GTE'', ''>='')]"

definition parse_string_match ::
  "string \<Rightarrow> string \<Rightarrow> Parser \<Rightarrow> exc + (ASTNode \<times> Parser)" where
  "parse_string_match column match_type P =
     (case expect (padvance P) ''STRING_LITERAL'' [] of
        Inl e \<Rightarrow> Inl e
      | Inr (pt, P') \<Rightarrow>
          Inr (new_node (StringMatchNode column match_type (str_value (tok_value pt))), P'))"

text \<open>
  \<open>parse_primary_condition\<close> after its test for an opening parenthesis: a column name
  followed by one of the condition forms.
\<close>

definition parse_column_condition :: "env \<Rightarrow> Parser \<Rightarrow> exc + (ASTNode \<times> Parser)" where
  "parse_column_condition E P =
     (if \<not> match P [''IDENTIFIER'']
        then Inl (PyExc ''SyntaxError''
                    (''Expected column name in condition, got '' @ current_repr E P))
      else
        (case expect P ''IDENTIFIER'' [] of
           Inl e \<Rightarrow> Inl e
         | Inr (ct, P1) \<Rightarrow>
             (let column = str_value (tok_value ct) in
              if match P1 [''BETWEEN''] then
                (case parse_value (padvance P1) of
                   Inl e \<Rightarrow> Inl e
                 | Inr (min_value, P2) \<Rightarrow>
                     (case expect P2 ''AND'' [] of
                        Inl e \<Rightarrow> Inl e
                      | Inr (t, P3) \<Rightarrow>
                          (case parse_value P3 of
                             Inl e \<Rightarrow> Inl e
                           | Inr (max_value, P4) \<Rightarrow>
                               Inr (new_node (BetweenNode column min_value max_value), P4))))
              else if match P1 [''IN''] then
                (case parse_list_value (padvance P1) of
                   Inl e \<Rightarrow> Inl e
                 | Inr (vs, P2) \<Rightarrow> Inr (new_node (InNode column vs), P2))
              else if match P1 [''CONTAINS''] then parse_string_match column ''contains'' P1
              else if match P1 [''STARTS_WITH''] then parse_string_match column ''starts_with'' P1
              else if match P1 [''ENDS_WITH''] then parse_string_match column ''ends_with'' P1
              else if match P1 [''MATCHES''] then parse_string_match column ''matches'' P1
              else if match P1 [''IS''] then
                (let is_not = match (padvance P1) [''NOT''];
                     P2 = (if is_not then padvance (padvance P1) else padvance P1)
                 in case expect P2 ''NULL'' [] of
                      Inl e \<Rightarrow> Inl e
                    | Inr (t, P3) \<Rightarrow> Inr (new_node (NullCheckNode column is_not), P3))
              else if match P1 comparison_tokens then
                (case current_token P1 of
                   None \<Rightarrow> Inl unreachable
                 | Some op_token \<Rightarrow>
                     (case parse_value (padvance P1) of
                        Inl e \<Rightarrow> Inl e
                      | Inr (v, P2) \<Rightarrow>
                          (case map_of op_map (name (tok_type op_token)) of
                             None \<Rightarrow> Inl (PyExc ''KeyError'' (name (tok_type op_token)))
                           | Some operator \<Rightarrow>
                               Inr (new_node (ComparisonNode column operator v), P2))))
              else Inl (PyExc ''SyntaxError''
                          (''Expected comparison operator or keyword after column '' @ sq
                           @ column @ sq @ '', got '' @ current_repr E P1)))))"

function parse_where_clause :: "env \<Rightarrow> Parser \<Rightarrow> exc + (ASTNode \<times> Parser)"
  and parse_or_condition :: "env \<Rightarrow> Parser \<Rightarrow> exc + (ASTNode \<times> Parser)"
  and or_loop :: "env \<Rightarrow> ASTNode \<Rightarrow> Parser \<Rightarrow> exc + (ASTNode \<times> Parser)"
  and parse_and_condition :: "env \<Rightarrow> Parser \<Rightarrow> exc + (ASTNode \<times> Parser)"
  and and_loop :: "env \<Rightarrow> ASTNode \<Rightarrow> Parser \<Rightarrow> exc + (ASTNode \<times> Parser)"
  and parse_not_condition :: "env \<Rightarrow> Parser \<Rightarrow> exc + (ASTNode \<times> Parser)"
  and parse_primary_condition :: "env \<Rightarrow> Parser \<Rightarrow> exc + (ASTNode \<times> Parser)"
where
  "parse_where_clause E P = parse_or_condition E P"
| "parse_or_condition E P =
     (case parse_and_condition E P of
        Inl e \<Rightarrow> Inl e
      | Inr (left, P1) \<Rightarrow>
          (if remaining P1 < remaining P then or_loop E left P1 else Inl unreachable))"
| "or_loop E left P =
     (if match P [''OR''] then
        (case parse_and_condition E (padvance P) of
           Inl e \<Rightarrow> Inl e
         | Inr (right, P2) \<Rightarrow>
             (if remaining P2 < remaining P
              then or_loop E (new_node (BinaryConditionNode left ''or'' right)) P2
              else Inl unreachable))
      else Inr (left, P))"
| "parse_and_condition E P =
     (case parse_not_condition E P of
        Inl e \<Rightarrow> Inl e
      | Inr (left, P1) \<Rightarrow>
          (if remaining P1 < remaining P then and_loop E left P1 else Inl unreachable))"
| "and_loop E left P =
     (if match P [''AND''] then
        (case parse_not_condition E (padvance P) of
           Inl e \<Rightarrow> Inl e
         | Inr (right, P2) \<Rightarrow>
             (if remaining P2 < remaining P
              then and_loop E (new_node (BinaryConditionNode left ''and'' right)) P2
              else Inl unreachable))
      else Inr (left, P))"
| "parse_not_condition E P =
     (if match P [''NOT''] then
        (case parse_not_condition E (padvance P) of
           Inl e \<Rightarrow> Inl e
         | Inr (c, P2) \<Rightarrow> Inr (new_node (NotConditionNode c), P2))
      else parse_primary_condition E P)"
| "parse_primary_condition E P =
     (if match P [''LPAREN''] then
        (case parse_where_clause E (padvance P) of
           Inl e \<Rightarrow> Inl e
         | Inr (c, P2) \<Rightarrow>
             (case expect P2 ''RPAREN'' [] of
                Inl e \<Rightarrow> Inl e
              | Inr (t, P3) \<Rightarrow> Inr (c, P3)))
      else parse_column_condition E P)"
  by pat_completeness auto
termination
  by (lexicographic_order dest!: match_remaining)

declare parse_where_clause.simps [simp del] parse_or_condition.simps [simp del]
  or_loop.simps [simp del] parse_and_condition.simps [simp del] and_loop.simps [simp del]
  parse_not_condition.simps [simp del] parse_primary_condition.simps [simp del]

subsection \<open>Statement endings and the routine that answers to \<open>parse_power\<close>\<close>

text \<open>
  The trailing \<open>as alias\<close>, optional in every statement routine:
  \<open>new_alias = None; if self.match(AS): self.advance(); new_alias = self.expect(IDENTIFIER).value\<close>.
\<close>

definition parse_optional_alias :: "Parser \<Rightarrow> exc + (string option \<times> Parser)" where
  "parse_optional_alias P =
     (if match P [''AS''] then
        (case expect (padvance P) ''IDENTIFIER'' [] of
           Inl e \<Rightarrow> Inl e
         | Inr (t, P') \<Rightarrow> Inr (Some (str_value (tok_value t)), P'))
      else Inr (None, P))"

text \<open>\<open>float(v)\<close> for the value of a \<open>NUMERIC_LITERAL\<close> token, an integer or a decimal.\<close>

fun py_float :: "PyVal \<Rightarrow> exc + PyVal" where
  "py_float (VInt i) = Inr (VFloat (str_int i @ ''.0''))"
| "py_float (VFloat f) = Inr (VFloat f)"
| "py_float (VBool b) = Inr (VFloat (if b then ''1.0'' else ''0.0''))"
| "py_float v = Inl (PyExc ''TypeError''
       (''float() argument must be a string or a real number, not '' @ sq @ type_name v @ sq))"

text \<open>
  The class \<open>Parser\<close> defines a method called \<open>parse_power\<close> twice: first the
  exponentiation level of the expression grammar, and further down the routine of the
  \<open>power\<close> statement.  A class body keeps the last definition of a name, so
  \<open>self.parse_power()\<close> is the statement routine wherever it is called, also from
  \<open>parse_multiplicative\<close>.  (In the same way \<open>parse_expression\<close> is the second of its two
  definitions, the one of the expression grammar.)  The statement routine:
\<close>

definition parse_power :: "Parser \<Rightarrow> exc + (ASTNode \<times> Parser)" where
  "parse_power P =
     (case expect (padvance P) ''IDENTIFIER'' [] of
        Inl e \<Rightarrow> Inl e
      | Inr (st, P1) \<Rightarrow>
     (case expect P1 ''COLUMN'' [] of
        Inl e \<Rightarrow> Inl e
      | Inr (t1, P2) \<Rightarrow>
     (case expect P2 ''IDENTIFIER'' [] of
        Inl e \<Rightarrow> Inl e
      | Inr (ct, P3) \<Rightarrow>
     (case expect P3 ''EXPONENT'' [] of
        Inl e \<Rightarrow> Inl e
      | Inr (t2, P4) \<Rightarrow>
     (case expect P4 ''ASSIGN'' [] of
        Inl e \<Rightarrow> Inl e
      | Inr (t3, P5) \<Rightarrow>
     (case expect P5 ''NUMERIC_LITERAL'' [] of
        Inl e \<Rightarrow> Inl e
      | Inr (nt, P6) \<Rightarrow>
     (case py_float (tok_value nt) of
        Inl e \<Rightarrow> Inl e
      | Inr exponent \<Rightarrow>
     (case parse_optional_alias P6 of
        Inl e \<Rightarrow> Inl e
      | Inr (new_alias, P7) \<Rightarrow>
          Inr (new_node (PowerNode (str_value (tok_value st)) (str_value (tok_value ct))
                           new_alias exponent), P7)))))))))"

subsection \<open>The expression grammar\<close>

text \<open>
  \<open>parse_multiplicative\<close> tests \<open>self.match(TokenType.MULTIPLY, TokenType.DIVIDE,
  TokenType.MODULO)\<close>; the arguments are evaluated first, as attribute accesses on the
  enumeration.
\<close>

definition multiplicative_op :: "Parser \<Rightarrow> string" where
  "multiplicative_op P =
     (case current_token P of
        None \<Rightarrow> ''*''
      | Some op_token \<Rightarrow>
          (case map_of [(''MULTIPLY'', ''*''), (''DIVIDE'', ''/''), (''MODULO'', ''%'')]
                  (name (tok_type op_token)) of
             Some opr \<Rightarrow> opr
           | None \<Rightarrow> ''*''))"

function multiplicative_loop :: "ASTNode \<Rightarrow> Parser \<Rightarrow> exc + (ASTNode \<times> Parser)" where
  "multiplicative_loop left P =
     (case TokenType_attr ''MULTIPLY'' of
        Inl e \<Rightarrow> Inl e
      | Inr t1 \<Rightarrow>
     (case TokenType_attr ''DIVIDE'' of
        Inl e \<Rightarrow> Inl e
      | Inr t2 \<Rightarrow>
     (case TokenType_attr ''MODULO'' of
        Inl e \<Rightarrow> Inl e
      | Inr t3 \<Rightarrow>
          (if match P [name t1, name t2, name t3] then
             (case parse_power (padvance P) of
                Inl e \<Rightarrow> Inl e
              | Inr (right, P2) \<Rightarrow>
                  (if remaining P2 < remaining P
                   then multiplicative_loop
                          (new_node (BinaryOpNode left (multiplicative_op P) right)) P2
                   else Inl unreachable))
           else Inr (left, P)))))"
  by pat_completeness auto
termination
  by (relation "measure (\<lambda>(left, P). remaining P)") auto

declare multiplicative_loop.simps [simp del]

definition parse_multiplicative :: "Parser \<Rightarrow> exc + (ASTNode \<times> Parser)" where
  "parse_multiplicative P =
     (case parse_power P of
        Inl e \<Rightarrow> Inl e
      | Inr (left, P1) \<Rightarrow> multiplicative_loop left P1)"

definition additive_op :: "Parser \<Rightarrow> string" where
  "additive_op P =
     (case current_token P of
        None \<Rightarrow> ''-''
      | Some op_token \<Rightarrow> (if name (tok_type op_token) = ''PLUS'' then ''+'' else ''-''))"

function additive_loop :: "ASTNode \<Rightarrow> Parser \<Rightarrow> exc + (ASTNode \<times> Parser)" where
  "additive_loop left P =
     (if match P [''PLUS'', ''MINUS''] then
        (case parse_multiplicative (padvance P) of
           Inl e \<Rightarrow> Inl e
         | Inr (right, P2) \<Rightarrow>
             (if remaining P2 < remaining P
              then additive_loop (new_node (BinaryOpNode left (additive_op P) right)) P2
              else Inl unreachable))
      else Inr (left, P))"
  by pat_completeness auto
termination
  by (relation "measure (\<lambda>(left, P). remaining P)") auto

declare additive_loop.simps [simp del]

definition parse_additive :: "Parser \<Rightarrow> exc + (ASTNode \<times> Parser)" where
  "parse_additive P =
     (case parse_multiplicative P of
        Inl e \<Rightarrow> Inl e
      | Inr (left, P1) \<Rightarrow> additive_loop left P1)"

definition comparison_op :: "Parser \<Rightarrow> string" where
  "comparison_op P =
     (case current_token P of
        None \<Rightarrow> ''==''
      | Some op_token \<Rightarrow>
          (case map_of op_map (name (tok_type op_token)) of
             Some opr \<Rightarrow> opr
           | None \<Rightarrow> ''==''))"

definition parse_comparison :: "Parser \<Rightarrow> exc + (ASTNode \<times> Parser)" where
  "parse_comparison P =
     (case parse_additive P of
        Inl e \<Rightarrow> Inl e
      | Inr (left, P1) \<Rightarrow>
          (if match P1 comparison_tokens then
             (case parse_additive (padvance P1) of
                Inl e \<Rightarrow> Inl e
              | Inr (right, P2) \<Rightarrow>
                  Inr (new_node (BinaryOpNode left (comparison_op P1) right), P2))
           else Inr (left, P1)))"

function logical_and_loop :: "ASTNode \<Rightarrow> Parser \<Rightarrow> exc + (ASTNode \<times> Parser)" where
  "logical_and_loop left P =
     (if match P [''AND''] then
        (case parse_comparison (padvance P) of
           Inl e \<Rightarrow> Inl e
         | Inr (right, P2) \<Rightarrow>
             (if remaining P2 < remaining P
              then logical_and_loop (new_node (BinaryOpNode left ''and'' right)) P2
              else Inl unreachable))
      else Inr (left, P))"
  by pat_completeness auto
termination
  by (relation "measure (\<lambda>(left, P). remaining P)") auto

declare logical_and_loop.simps [simp del]

definition parse_logical_and :: "Parser \<Rightarrow> exc + (ASTNode \<times> Parser)" where
  "parse_logical_and P =
     (case parse_comparison P of
        Inl e \<Rightarrow> Inl e
      | Inr (left, P1) \<Rightarrow> logical_and_loop left P1)"

function logical_or_loop :: "ASTNode \<Rightarrow> Parser \<Rightarrow> exc + (ASTNode \<times> Parser)" where
  "logical_or_loop left P =
     (if match P [''OR''] then
        (case parse_logical_and (padvance P) of
           Inl e \<Rightarrow> Inl e
         | Inr (right, P2) \<Rightarrow>
             (if remaining P2 < remaining P
              then logical_or_loop (new_node (BinaryOpNode left ''or'' right)) P2
              else Inl unreachable))
      else Inr (left, P))"
  by pat_completeness auto
termination
  by (relation "measure (\<lambda>(left, P). remaining P)") auto

declare logical_or_loop.simps [simp del]

definition parse_logical_or :: "Parser \<Rightarrow> exc + (ASTNode \<times> Parser)" where
  "parse_logical_or P =
     (case parse_logical_and P of
        Inl e \<Rightarrow> Inl e
      | Inr (left, P1) \<Rightarrow> logical_or_loop left P1)"

definition parse_conditional :: "Parser \<Rightarrow> exc + (ASTNode \<times> Parser)" where
  "parse_conditional P =
     (case parse_logical_or P of
        Inl e \<Rightarrow> Inl e
      | Inr (expr, P1) \<Rightarrow>
          (if match P1 [''WHERE''] then
             (case parse_logical_or (padvance P1) of
                Inl e \<Rightarrow> Inl e
              | Inr (condition, P2) \<Rightarrow>
             (case TokenType_attr ''ELSE'' of
                Inl e \<Rightarrow> Inl e
              | Inr t \<Rightarrow>
             (case expect P2 (name t) [] of
                Inl e \<Rightarrow> Inl e
              | Inr (t', P3) \<Rightarrow>
             (case parse_logical_or P3 of
                Inl e \<Rightarrow> Inl e
              | Inr (else_expr, P4) \<Rightarrow>
                  Inr (new_node (ConditionalExprNode condition expr else_expr), P4)))))
           else Inr (expr, P1)))"

definition parse_expression :: "Parser \<Rightarrow> exc + (ASTNode \<times> Parser)" where
  "parse_expression P = parse_conditional P"

subsection \<open>Statements\<close>

definition parse_identifier_or_keyword :: "Parser \<Rightarrow> exc + (string \<times> Parser)" where
  "parse_identifier_or_keyword P =
     (case current_token P of
        None \<Rightarrow> Inl (no_attribute VNone ''type'')
      | Some token \<Rightarrow>
          (if name (tok_type token) = ''IDENTIFIER''
             then Inr (str_value (tok_value token), padvance P)
           else if name (tok_type token) \<in> set [''TARGET'', ''INDEX'', ''COLUMN'', ''VALUES'',
                     ''N'', ''MIN'', ''MAX'', ''METHOD'', ''SUBSET'']
             then Inr (str_value (tok_value token), padvance P)
           else Inl (PyExc ''SyntaxError''
                       (''Expected identifier or column name, got TokenType.''
                        @ name (tok_type token)))))"

lemma parse_identifier_or_keyword_remaining:
  assumes "parse_identifier_or_keyword P = Inr (c, P')"
  shows "remaining P' < remaining P"
proof (cases "current_token P")
  case None
  with assms show ?thesis by (simp add: parse_identifier_or_keyword_def)
next
  case (Some token)
  with assms have "P' = padvance P"
    by (simp add: parse_identifier_or_keyword_def split: if_splits)
  with current_token_remaining [OF Some] show ?thesis by simp
qed

text \<open>The loop \<open>while self.match(COMMA): self.advance(); columns.append(...)\<close>.\<close>

function column_items :: "Parser \<Rightarrow> string list \<Rightarrow> exc + (string list \<times> Parser)" where
  "column_items P columns =
     (if match P [''COMMA''] then
        (case parse_identifier_or_keyword (padvance P) of
           Inl e \<Rightarrow> Inl e
         | Inr (c, P2) \<Rightarrow>
             (if remaining P2 < remaining P then column_items P2 (columns @ [c])
              else Inl unreachable))
      else Inr (columns, P))"
  by pat_completeness auto
termination
  by (relation "measure (\<lambda>(P, columns). remaining P)") auto

declare column_items.simps [simp del]

definition parse_column_list :: "Parser \<Rightarrow> exc + (string list \<times> Parser)" where
  "parse_column_list P =
     (case expect P ''LBRACE'' [] of
        Inl e \<Rightarrow> Inl e
      | Inr (t, P1) \<Rightarrow>
     (case parse_identifier_or_keyword P1 of
        Inl e \<Rightarrow> Inl e
      | Inr (c, P2) \<Rightarrow>
     (case column_items P2 [c] of
        Inl e \<Rightarrow> Inl e
      | Inr (columns, P3) \<Rightarrow>
     (case expect P3 ''RBRACE'' [] of
        Inl e \<Rightarrow> Inl e
      | Inr (t', P4) \<Rightarrow> Inr (columns, P4)))))"

definition parse_column_list_natural :: "Parser \<Rightarrow> exc + (string list \<times> Parser)" where
  "parse_column_list_natural P =
     (case parse_identifier_or_keyword P of
        Inl e \<Rightarrow> Inl e
      | Inr (c, P1) \<Rightarrow> column_items P1 [c])"

text \<open>
  The routines of the statement forms this development does not embed are the
  parameter \<open>po\<close>.  Each of them starts by consuming the token it was dispatched on, so
  \<open>po\<close> answers with the node and the number of tokens consumed after that one.
\<close>

type_synonym other_routines = "Parser \<Rightarrow> exc + (ASTNode \<times> nat)"

definition call_other :: "other_routines \<Rightarrow> Parser \<Rightarrow> exc + (ASTNode \<times> Parser)" where
  "call_other po P =
     (case po P of
        Inl e \<Rightarrow> Inl e
      | Inr (node, k) \<Rightarrow> Inr (node, P\<lparr>pos := pos P + 1 + k\<rparr>))"

definition parse_load_enhanced :: "other_routines \<Rightarrow> Parser \<Rightarrow> exc + (ASTNode \<times> Parser)" where
  "parse_load_enhanced po P =
     (case expect P ''LOAD'' [] of
        Inl e \<Rightarrow> Inl e
      | Inr (t, P1) \<Rightarrow>
          (if match P1 [''CSV''] then call_other po P1
           else if match P1 [''JSON''] then call_other po P1
           else if match P1 [''EXCEL''] then call_other po P1
           else if match P1 [''PARQUET''] then call_other po P1
           else if match P1 [''SQL''] then call_other po P1
           else if match P1 [''STRING_LITERAL''] then
             (case expect P1 ''STRING_LITERAL'' [] of
                Inl e \<Rightarrow> Inl e
              | Inr (ft, P2) \<Rightarrow>
             (case expect P2 ''AS'' [] of
                Inl e \<Rightarrow> Inl e
              | Inr (t', P3) \<Rightarrow>
             (case expect P3 ''IDENTIFIER'' [] of
                Inl e \<Rightarrow> Inl e
              | Inr (at, P4) \<Rightarrow>
                  Inr (new_node (LoadNode (str_value (tok_value ft)) (str_value (tok_value at))
                                   None None), P4))))
           else Inl (PyExc ''SyntaxError''
                  (''Expected file format (csv, json, excel, parquet, sql) or file path after ''
                   @ sq @ ''load'' @ sq))))"

definition parse_select :: "Parser \<Rightarrow> exc + (ASTNode \<times> Parser)" where
  "parse_select P =
     (case expect P ''SELECT'' [] of
        Inl e \<Rightarrow> Inl e
      | Inr (t, P1) \<Rightarrow>
     (case expect P1 ''IDENTIFIER'' [] of
        Inl e \<Rightarrow> Inl e
      | Inr (st, P2) \<Rightarrow>
     (case (if match P2 [''WITH''] then parse_column_list_natural (padvance P2)
            else if match P2 [''LBRACE''] then parse_column_list P2
            else Inl (PyExc ''SyntaxError''
                        (''Expected '' @ sq @ ''with'' @ sq @ '' or '' @ sq @ ''{'' @ sq
                         @ '' after select source''))) of
        Inl e \<Rightarrow> Inl e
      | Inr (columns, P3) \<Rightarrow>
     (case parse_optional_alias P3 of
        Inl e \<Rightarrow> Inl e
      | Inr (new_alias, P4) \<Rightarrow>
          Inr (new_node (SelectNode (str_value (tok_value st)) columns new_alias), P4)))))"

definition parse_filter :: "env \<Rightarrow> Parser \<Rightarrow> exc + (ASTNode \<times> Parser)" where
  "parse_filter E P =
     (case expect P ''FILTER'' [] of
        Inl e \<Rightarrow> Inl e
      | Inr (t, P1) \<Rightarrow>
     (case expect P1 ''IDENTIFIER'' [] of
        Inl e \<Rightarrow> Inl e
      | Inr (st, P2) \<Rightarrow>
     (case expect P2 ''WHERE'' [] of
        Inl e \<Rightarrow> Inl e
      | Inr (t', P3) \<Rightarrow>
     (case parse_where_clause E P3 of
        Inl e \<Rightarrow> Inl e
      | Inr (condition, P4) \<Rightarrow>
     (case parse_optional_alias P4 of
        Inl e \<Rightarrow> Inl e
      | Inr (new_alias, P5) \<Rightarrow>
          Inr (new_node (UpdatedFilterNode (str_value (tok_value st)) condition new_alias),
               P5))))))"

definition parse_join :: "Parser \<Rightarrow> exc + (ASTNode \<times> Parser)" where
  "parse_join P =
     (case expect P ''JOIN'' [] of
        Inl e \<Rightarrow> Inl e
      | Inr (t, P1) \<Rightarrow>
     (case expect P1 ''IDENTIFIER'' [] of
        Inl e \<Rightarrow> Inl e
      | Inr (a1, P2) \<Rightarrow>
     (case expect P2 ''WITH'' [] of
        Inl e \<Rightarrow> Inl e
      | Inr (t', P3) \<Rightarrow>
     (case expect P3 ''IDENTIFIER'' [] of
        Inl e \<Rightarrow> Inl e
      | Inr (a2, P4) \<Rightarrow>
     (case expect P4 ''ON'' [] of
        Inl e \<Rightarrow> Inl e
      | Inr (t'', P5) \<Rightarrow>
     (case expect P5 ''IDENTIFIER'' [] of
        Inl e \<Rightarrow> Inl e
      | Inr (jc, P6) \<Rightarrow>
     (case parse_optional_alias P6 of
        Inl e \<Rightarrow> Inl e
      | Inr (new_alias, P7) \<Rightarrow>
          Inr (new_node (JoinNode (str_value (tok_value a1)) (str_value (tok_value a2))
                           (str_value (tok_value jc)) new_alias), P7))))))))"

definition parse_describe :: "Parser \<Rightarrow> exc + (ASTNode \<times> Parser)" where
  "parse_describe P =
     (case expect P ''DESCRIBE'' [] of
        Inl e \<Rightarrow> Inl e
      | Inr (t, P1) \<Rightarrow>
     (case expect P1 ''IDENTIFIER'' [] of
        Inl e \<Rightarrow> Inl e
      | Inr (st, P2) \<Rightarrow>
          (if match P2 [''COLUMNS''] then
             (case parse_column_list (padvance P2) of
                Inl e \<Rightarrow> Inl e
              | Inr (columns, P3) \<Rightarrow>
                  Inr (new_node (DescribeNode (str_value (tok_value st)) (Some columns)), P3))
           else Inr (new_node (DescribeNode (str_value (tok_value st)) None), P2))))"

definition parse_union :: "Parser \<Rightarrow> exc + (ASTNode \<times> Parser)" where
  "parse_union P =
     (case expect (padvance P) ''IDENTIFIER'' [] of
        Inl e \<Rightarrow> Inl e
      | Inr (lt, P1) \<Rightarrow>
     (case expect P1 ''WITH'' [] of
        Inl e \<Rightarrow> Inl e
      | Inr (t, P2) \<Rightarrow>
     (case expect P2 ''IDENTIFIER'' [] of
        Inl e \<Rightarrow> Inl e
      | Inr (rt, P3) \<Rightarrow>
     (case parse_optional_alias P3 of
        Inl e \<Rightarrow> Inl e
      | Inr (new_alias, P4) \<Rightarrow>
          Inr (new_node (UnionNode (str_value (tok_value lt)) (str_value (tok_value rt))
                           new_alias), P4)))))"

text \<open>One mutation \<open>col : "expr"\<close> of the brace form, and one \<open>col = expr\<close> of the \<open>with\<close> form.\<close>

definition parse_mutation :: "Parser \<Rightarrow> exc + (ASTNode \<times> Parser)" where
  "parse_mutation P =
     (case expect P ''IDENTIFIER'' [] of
        Inl e \<Rightarrow> Inl e
      | Inr (ct, P1) \<Rightarrow>
     (case expect P1 ''COLON'' [] of
        Inl e \<Rightarrow> Inl e
      | Inr (t, P2) \<Rightarrow>
     (case expect P2 ''STRING_LITERAL'' [] of
        Inl e \<Rightarrow> Inl e
      | Inr (et, P3) \<Rightarrow>
          Inr (new_node (MutationNode (str_value (tok_value ct))
                           (Inl (str_value (tok_value et)))), P3))))"

lemma parse_mutation_remaining:
  "parse_mutation P = Inr (m, P') \<Longrightarrow> remaining P' < remaining P"
  unfolding parse_mutation_def
  by (erule bind_InrE, erule bind_InrE, erule bind_InrE, drule expect_remaining,
      drule expect_remaining, drule expect_remaining, simp)

function mutation_items :: "Parser \<Rightarrow> ASTNode list \<Rightarrow> exc + (ASTNode list \<times> Parser)" where
  "mutation_items P mutations =
     (if match P [''COMMA''] then
        (case parse_mutation (padvance P) of
           Inl e \<Rightarrow> Inl e
         | Inr (m, P2) \<Rightarrow>
             (if remaining P2 < remaining P then mutation_items P2 (mutations @ [m])
              else Inl unreachable))
      else Inr (mutations, P))"
  by pat_completeness auto
termination
  by (relation "measure (\<lambda>(P, mutations). remaining P)") auto

declare mutation_items.simps [simp del]

definition parse_mutations :: "Parser \<Rightarrow> exc + (ASTNode list \<times> Parser)" where
  "parse_mutations P =
     (case expect P ''LBRACE'' [] of
        Inl e \<Rightarrow> Inl e
      | Inr (t, P1) \<Rightarrow>
     (case parse_mutation P1 of
        Inl e \<Rightarrow> Inl e
      | Inr (m, P2) \<Rightarrow>
     (case mutation_items P2 [m] of
        Inl e \<Rightarrow> Inl e
      | Inr (mutations, P3) \<Rightarrow>
     (case expect P3 ''RBRACE'' [] of
        Inl e \<Rightarrow> Inl e
      | Inr (t', P4) \<Rightarrow> Inr (mutations, P4)))))"

definition parse_mutation_with :: "Parser \<Rightarrow> exc + (ASTNode \<times> Parser)" where
  "parse_mutation_with P =
     (case expect P ''IDENTIFIER'' [] of
        Inl e \<Rightarrow> Inl e
      | Inr (ct, P1) \<Rightarrow>
     (case expect P1 ''ASSIGN'' [] of
        Inl e \<Rightarrow> Inl e
      | Inr (t, P2) \<Rightarrow>
     (case parse_expression P2 of
        Inl e \<Rightarrow> Inl e
      | Inr (expression, P3) \<Rightarrow>
          Inr (new_node (MutationNode (str_value (tok_value ct)) (Inr expression)), P3))))"

function mutation_with_items :: "Parser \<Rightarrow> ASTNode list \<Rightarrow> exc + (ASTNode list \<times> Parser)" where
  "mutation_with_items P mutations =
     (if match P [''WITH''] then
        (case parse_mutation_with (padvance P) of
           Inl e \<Rightarrow> Inl e
         | Inr (m, P2) \<Rightarrow>
             (if remaining P2 < remaining P then mutation_with_items P2 (mutations @ [m])
              else Inl unreachable))
      else Inr (mutations, P))"
  by pat_completeness auto
termination
  by (relation "measure (\<lambda>(P, mutations). remaining P)") auto

declare mutation_with_items.simps [simp del]

definition parse_mutations_with_syntax :: "Parser \<Rightarrow> exc + (ASTNode list \<times> Parser)" where
  "parse_mutations_with_syntax P =
     (case expect P ''WITH'' [] of
        Inl e \<Rightarrow> Inl e
      | Inr (t, P1) \<Rightarrow>
     (case parse_mutation_with P1 of
        Inl e \<Rightarrow> Inl e
      | Inr (m, P2) \<Rightarrow> mutation_with_items P2 [m]))"

definition parse_mutate :: "Parser \<Rightarrow> exc + (ASTNode \<times> Parser)" where
  "parse_mutate P =
     (case expect P ''MUTATE'' [] of
        Inl e \<Rightarrow> Inl e
      | Inr (t, P1) \<Rightarrow>
     (case expect P1 ''IDENTIFIER'' [] of
        Inl e \<Rightarrow> Inl e
      | Inr (st, P2) \<Rightarrow>
     (case (if match P2 [''WITH''] then parse_mutations_with_syntax P2
            else parse_mutations P2) of
        Inl e \<Rightarrow> Inl e
      | Inr (mutations, P3) \<Rightarrow>
     (case parse_optional_alias P3 of
        Inl e \<Rightarrow> Inl e
      | Inr (new_alias, P4) \<Rightarrow>
          Inr (new_node (MutateNode (str_value (tok_value st)) mutations new_alias), P4)))))"

text \<open>
  The token kinds that \<open>parse_statement\<close> dispatches to a routine not embedded here, in
  the order of its \<open>elif\<close> chain.
\<close>

definition other_statement_keyword :: "string \<Rightarrow> bool" where
  "other_statement_keyword n =
     (n = ''SORT'' \<or> n = ''GROUPBY'' \<or> n = ''SAMPLE'' \<or> n = ''SELECT_BY_TYPE'' \<or>
      n = ''HEAD'' \<or> n = ''TAIL'' \<or> n = ''ILOC'' \<or> n = ''LOC'' \<or>
      n = ''RENAME'' \<or> n = ''REORDER'' \<or> n = ''FILTER_BETWEEN'' \<or>
      n = ''FILTER_ISIN'' \<or> n = ''FILTER_CONTAINS'' \<or> n = ''FILTER_STARTSWITH'' \<or>
      n = ''FILTER_ENDSWITH'' \<or> n = ''FILTER_REGEX'' \<or> n = ''FILTER_NULL'' \<or>
      n = ''FILTER_NOTNULL'' \<or> n = ''FILTER_DUPLICATES'' \<or> n = ''ROUND'' \<or>
      n = ''ABS'' \<or> n = ''SQRT'' \<or> n = ''LOG'' \<or> n = ''CEIL'' \<or>
      n = ''FLOOR'' \<or> n = ''UPPER'' \<or> n = ''LOWER'' \<or> n = ''STRIP'' \<or>
      n = ''REPLACE'' \<or> n = ''SPLIT'' \<or> n = ''CONCAT'' \<or> n = ''SUBSTRING'' \<or>
      n = ''LENGTH'' \<or> n = ''PARSE_DATETIME'' \<or> n = ''EXTRACT'' \<or>
      n = ''EXTRACT_YEAR'' \<or> n = ''EXTRACT_MONTH'' \<or> n = ''EXTRACT_DAY'' \<or>
      n = ''DATE_DIFF'' \<or> n = ''ASTYPE'' \<or> n = ''TO_NUMERIC'' \<or>
      n = ''ONE_HOT_ENCODE'' \<or> n = ''LABEL_ENCODE'' \<or> n = ''STANDARD_SCALE'' \<or>
      n = ''MINMAX_SCALE'' \<or> n = ''ISNULL'' \<or> n = ''NOTNULL'' \<or>
      n = ''COUNT_NA'' \<or> n = ''FILL_FORWARD'' \<or> n = ''FILL_BACKWARD'' \<or>
      n = ''FILL_MEAN'' \<or> n = ''FILL_MEDIAN'' \<or> n = ''INTERPOLATE'' \<or>
      n = ''DUPLICATED'' \<or> n = ''COUNT_DUPLICATES'' \<or> n = ''DROP_DUPLICATES'' \<or>
      n = ''FILL_MODE'' \<or> n = ''QCUT'' \<or> n = ''SORT_INDEX'' \<or> n = ''RANK'' \<or>
      n = ''FILTER_GROUPS'' \<or> n = ''GROUP_TRANSFORM'' \<or> n = ''WINDOW_RANK'' \<or>
      n = ''WINDOW_LAG'' \<or> n = ''WINDOW_LEAD'' \<or> n = ''ROLLING_MEAN'' \<or>
      n = ''ROLLING_SUM'' \<or> n = ''ROLLING_STD'' \<or> n = ''ROLLING_MIN'' \<or>
      n = ''ROLLING_MAX'' \<or> n = ''EXPANDING_MEAN'' \<or> n = ''EXPANDING_SUM'' \<or>
      n = ''EXPANDING_MIN'' \<or> n = ''EXPANDING_MAX'' \<or> n = ''PIVOT'' \<or>
      n = ''PIVOT_TABLE'' \<or> n = ''MELT'' \<or> n = ''STACK'' \<or> n = ''UNSTACK'' \<or>
      n = ''TRANSPOSE'' \<or> n = ''CROSSTAB'' \<or> n = ''MERGE'' \<or>
      n = ''CONCAT_VERTICAL'' \<or> n = ''CONCAT_HORIZONTAL'' \<or> n = ''INTERSECTION'' \<or>
      n = ''DIFFERENCE'' \<or> n = ''SET_INDEX'' \<or> n = ''RESET_INDEX'' \<or>
      n = ''APPLY_ROW'' \<or> n = ''APPLY_COLUMN'' \<or> n = ''RESAMPLE'' \<or>
      n = ''ASSIGN_CONST'' \<or> n = ''CUMSUM'' \<or> n = ''CUMMAX'' \<or> n = ''CUMMIN'' \<or>
      n = ''CUMPROD'' \<or> n = ''PCT_CHANGE'' \<or> n = ''DIFF'' \<or> n = ''SHIFT'' \<or>
      n = ''APPLYMAP'' \<or> n = ''MAP_VALUES'' \<or> n = ''EXTRACT_HOUR'' \<or>
      n = ''EXTRACT_MINUTE'' \<or> n = ''EXTRACT_SECOND'' \<or> n = ''EXTRACT_DAYOFWEEK'' \<or>
      n = ''EXTRACT_DAYOFYEAR'' \<or> n = ''EXTRACT_WEEKOFYEAR'' \<or>
      n = ''EXTRACT_QUARTER'' \<or> n = ''DATE_ADD'' \<or> n = ''DATE_SUBTRACT'' \<or>
      n = ''FORMAT_DATETIME'' \<or> n = ''EXTRACT_REGEX'' \<or> n = ''TITLE'' \<or>
      n = ''CAPITALIZE'' \<or> n = ''LSTRIP'' \<or> n = ''RSTRIP'' \<or> n = ''FIND'' \<or>
      n = ''CUT'' \<or> n = ''ROBUST_SCALE'' \<or> n = ''MAXABS_SCALE'' \<or>
      n = ''ORDINAL_ENCODE'' \<or> n = ''TARGET_ENCODE'' \<or> n = ''ASSERT_UNIQUE'' \<or>
      n = ''ASSERT_NO_NULLS'' \<or> n = ''ASSERT_RANGE'' \<or> n = ''REINDEX'' \<or>
      n = ''SET_MULTIINDEX'' \<or> n = ''ANY'' \<or> n = ''ALL'' \<or> n = ''COUNT_TRUE'' \<or>
      n = ''COMPARE'' \<or> n = ''DROPNA'' \<or> n = ''FILLNA'' \<or> n = ''APPLY'' \<or>
      n = ''SUMMARY'' \<or> n = ''INFO'' \<or> n = ''UNIQUE'' \<or> n = ''VALUE_COUNTS'' \<or>
      n = ''OUTLIERS'' \<or> n = ''QUANTILE'' \<or> n = ''NORMALIZE'' \<or> n = ''BINNING'' \<or>
      n = ''ROLLING'' \<or> n = ''HYPOTHESIS'' \<or> n = ''BOXPLOT'' \<or> n = ''HEATMAP'' \<or>
      n = ''PAIRPLOT'' \<or> n = ''TIMESERIES'' \<or> n = ''PIE'' \<or> n = ''SAVE'' \<or>
      n = ''EXPORT_PLOT'' \<or> n = ''SHOW'')"

text \<open>
  \<open>parse_statement\<close>: the dispatch on the kind of the current token.  The tests are
  mutually exclusive, so their order is immaterial.
\<close>

definition parse_statement ::
  "env \<Rightarrow> other_routines \<Rightarrow> Parser \<Rightarrow> exc + (ASTNode option \<times> Parser)" where
  "parse_statement E po P =
     (case current_token P of
        None \<Rightarrow> Inr (None, P)
      | Some token \<Rightarrow>
          (case (let n = name (tok_type token) in
                 if n = ''LOAD'' then parse_load_enhanced po P
                 else if n = ''SELECT'' then parse_select P
                 else if n = ''FILTER'' then parse_filter E P
                 else if n = ''JOIN'' then parse_join P
                 else if n = ''POWER'' then parse_power P
                 else if n = ''UNION'' then parse_union P
                 else if n = ''MUTATE'' then parse_mutate P
                 else if n = ''DESCRIBE'' then parse_describe P
                 else if other_statement_keyword n then call_other po P
                 else Inl (PyExc ''SyntaxError'' (''Unexpected token: TokenType.'' @ n))) of
             Inl e \<Rightarrow> Inl e
           | Inr (stmt, P') \<Rightarrow> Inr (Some stmt, P')))"

function parse_loop ::
  "env \<Rightarrow> other_routines \<Rightarrow> Parser \<Rightarrow> ASTNode list \<Rightarrow> exc + ASTNode list" where
  "parse_loop E po P statements =
     (case current_token P of
        None \<Rightarrow> Inr statements
      | Some token \<Rightarrow>
          (if name (tok_type token) = ''EOF'' then Inr statements
           else
             (case parse_statement E po P of
                Inl e \<Rightarrow> Inl e
              | Inr (stmt, P') \<Rightarrow>
                  (if remaining P' < remaining P then
                     parse_loop E po P'
                       (case stmt of Some s \<Rightarrow> statements @ [s] | None \<Rightarrow> statements)
                   else Inl unreachable))))"
  by pat_completeness auto
termination
  by (relation "measure (\<lambda>(E, po, P, statements). remaining P)") auto

declare parse_loop.simps [simp del]

definition parse :: "env \<Rightarrow> other_routines \<Rightarrow> Parser \<Rightarrow> exc + ASTNode" where
  "parse E po P =
     (case parse_loop E po P [] of
        Inl e \<Rightarrow> Inl e
      | Inr statements \<Rightarrow> Inr (new_node (ProgramNode statements)))"

section \<open>Semantic analyzer (noeta\_semantic.py)\<close>

record DatasetInfo =
  ds_name :: string
  ds_columns :: "(string \<times> ColumnInfo) list"
  ds_source :: "string option"

text \<open>
  \<open>SymbolTable\<close>: the dictionary \<open>datasets\<close>, in insertion order, and the list
  \<open>history\<close>.
\<close>

record SymbolTable =
  datasets :: "(string \<times> DatasetInfo) list"
  history :: "string list"

definition new_SymbolTable :: SymbolTable where
  "new_SymbolTable = \<lparr>datasets = [], history = []\<rparr>"

definition define_dataset :: "SymbolTable \<Rightarrow> string \<Rightarrow> DatasetInfo \<Rightarrow> SymbolTable" where
  "define_dataset st n info = \<lparr>datasets = dict_set n info (datasets st), history = history st @ [n]\<rparr>"

definition lookup :: "SymbolTable \<Rightarrow> string \<Rightarrow> DatasetInfo option" where
  "lookup st n = map_of (datasets st) n"

definition exists_dataset :: "SymbolTable \<Rightarrow> string \<Rightarrow> bool" where
  "exists_dataset st n = (n \<in> set (map fst (datasets st)))"

definition get_all_names :: "SymbolTable \<Rightarrow> string list" where
  "get_all_names st = map fst (datasets st)"

record SemanticAnalyzer =
  sa_source_lines :: "string list"
  symbol_table :: SymbolTable
  enable_type_check :: bool

definition new_SemanticAnalyzer ::
  "string \<Rightarrow> bool \<Rightarrow> SymbolTable option \<Rightarrow> SemanticAnalyzer" where
  "new_SemanticAnalyzer src tc st =
     \<lparr>sa_source_lines = (if src \<noteq> [] then split_lines src else []),
      symbol_table = (case st of Some t \<Rightarrow> t | None \<Rightarrow> new_SymbolTable),
      enable_type_check = tc\<rparr>"

definition sa_get_source_line :: "SemanticAnalyzer \<Rightarrow> int \<Rightarrow> string" where
  "sa_get_source_line A line_num =
     (if sa_source_lines A = [] \<or> line_num < 1 \<or> line_num > int (length (sa_source_lines A))
      then [] else sa_source_lines A ! nat (line_num - 1))"

definition suggest_dataset :: "SemanticAnalyzer \<Rightarrow> string \<Rightarrow> string option" where
  "suggest_dataset A attempted =
     (let available = get_all_names (symbol_table A) in
      if available = [] then None
      else (case suggest_similar attempted available 1 3 of
              [] \<Rightarrow> None
            | s # ss \<Rightarrow> Some (''Did you mean '' @ sq @ s @ sq @ ''?'')))"

definition dataset_hint :: "SemanticAnalyzer \<Rightarrow> string" where
  "dataset_hint A =
     (let available = get_all_names (symbol_table A) in
      if available \<noteq> [] then ''Available datasets: '' @ join '', '' available
      else ''No datasets have been loaded yet'')"

definition check_dataset_exists ::
  "SemanticAnalyzer \<Rightarrow> string \<Rightarrow> ASTNode \<Rightarrow> exc + DatasetInfo" where
  "check_dataset_exists A n node =
     (case lookup (symbol_table A) n of
        None \<Rightarrow>
          Inl (NoetaExc (create_semantic_error
                 (''Dataset '' @ sq @ n @ sq @ '' has not been loaded or created'')
                 (node_line node) (node_column node)
                 (sa_get_source_line A (node_line node))
                 (int (length n))
                 (Some (dataset_hint A))
                 (suggest_dataset A n)))
      | Some info \<Rightarrow> Inr info)"

definition has_column :: "DatasetInfo \<Rightarrow> string \<Rightarrow> bool" where
  "has_column info c = (c \<in> set (map fst (ds_columns info)))"

definition check_column_exists ::
  "SemanticAnalyzer \<Rightarrow> DatasetInfo \<Rightarrow> string \<Rightarrow> ASTNode \<Rightarrow> exc + unit" where
  "check_column_exists A info c node =
     (if ds_columns info = [] then Inr ()
      else if \<not> has_column info c then
        Inl (NoetaExc (create_semantic_error
               (''Column '' @ sq @ c @ sq @ '' does not exist in dataset '' @ sq @ ds_name info
                @ sq)
               (node_line node) (node_column node)
               (sa_get_source_line A (node_line node))
               (int (length c))
               (Some (''Available columns in '' @ sq @ ds_name info @ sq @ '': ''
                      @ join '', '' (map fst (ds_columns info))))
               None))
      else Inr ())"

fun check_columns ::
  "SemanticAnalyzer \<Rightarrow> DatasetInfo \<Rightarrow> string list \<Rightarrow> ASTNode \<Rightarrow> exc + unit" where
  "check_columns A info [] node = Inr ()"
| "check_columns A info (c # cs) node =
     (case check_column_exists A info c node of
        Inl e \<Rightarrow> Inl e
      | Inr u \<Rightarrow> check_columns A info cs node)"

definition introspect_file_schema ::
  "env \<Rightarrow> SemanticAnalyzer \<Rightarrow> string \<Rightarrow> string option \<Rightarrow> (string \<times> ColumnInfo) list" where
  "introspect_file_schema E A filepath fmt =
     (if \<not> enable_type_check A then [] else file_schema E filepath fmt)"

text \<open>\<open>if node.new_alias: self.symbol_table.define(node.new_alias, DatasetInfo(...))\<close>\<close>

definition register_result ::
  "SemanticAnalyzer \<Rightarrow> string option \<Rightarrow> (string \<times> ColumnInfo) list \<Rightarrow> string
     \<Rightarrow> SemanticAnalyzer" where
  "register_result A new_alias cols src =
     (case new_alias of
        None \<Rightarrow> A
      | Some a \<Rightarrow>
          (if a \<noteq> [] then
             A\<lparr>symbol_table := define_dataset (symbol_table A) a
                  \<lparr>ds_name = a, ds_columns = cols, ds_source = Some src\<rparr>\<rparr>
           else A))"

definition visit_LoadNode ::
  "env \<Rightarrow> SemanticAnalyzer \<Rightarrow> string \<Rightarrow> string \<Rightarrow> string option \<Rightarrow> SemanticAnalyzer" where
  "visit_LoadNode E A filepath alias fmt =
     A\<lparr>symbol_table := define_dataset (symbol_table A) alias
          \<lparr>ds_name = alias, ds_columns = introspect_file_schema E A filepath fmt,
           ds_source = Some filepath\<rparr>\<rparr>"

text \<open>The columns of a \<open>select\<close> that the source has, as the result's schema.\<close>

fun select_columns ::
  "(string \<times> ColumnInfo) list \<Rightarrow> string list \<Rightarrow> (string \<times> ColumnInfo) list
     \<Rightarrow> (string \<times> ColumnInfo) list" where
  "select_columns src [] acc = acc"
| "select_columns src (c # cs) acc =
     (case map_of src c of
        Some ci \<Rightarrow> select_columns src cs (dict_set c ci acc)
      | None \<Rightarrow> select_columns src cs acc)"

definition visit_SelectNode ::
  "SemanticAnalyzer \<Rightarrow> ASTNode \<Rightarrow> string \<Rightarrow> string list \<Rightarrow> string option
     \<Rightarrow> exc + SemanticAnalyzer" where
  "visit_SelectNode A node source_alias cols new_alias =
     (case check_dataset_exists A source_alias node of
        Inl e \<Rightarrow> Inl e
      | Inr source_info \<Rightarrow>
          (case (if ds_columns source_info \<noteq> [] then check_columns A source_info cols node
                 else Inr ()) of
             Inl e \<Rightarrow> Inl e
           | Inr u \<Rightarrow>
               Inr (register_result A new_alias
                      (if ds_columns source_info \<noteq> []
                       then select_columns (ds_columns source_info) cols [] else [])
                      (''select from '' @ source_alias))))"

definition visit_UpdatedFilterNode ::
  "SemanticAnalyzer \<Rightarrow> ASTNode \<Rightarrow> string \<Rightarrow> string option \<Rightarrow> exc + SemanticAnalyzer" where
  "visit_UpdatedFilterNode A node source_alias new_alias =
     (case check_dataset_exists A source_alias node of
        Inl e \<Rightarrow> Inl e
      | Inr source_info \<Rightarrow>
          Inr (register_result A new_alias (ds_columns source_info)
                 (''filter from '' @ source_alias)))"

definition visit_MutateNode ::
  "SemanticAnalyzer \<Rightarrow> ASTNode \<Rightarrow> string \<Rightarrow> string option \<Rightarrow> exc + SemanticAnalyzer" where
  "visit_MutateNode A node source_alias new_alias =
     (case check_dataset_exists A source_alias node of
        Inl e \<Rightarrow> Inl e
      | Inr source_info \<Rightarrow>
          Inr (register_result A new_alias (ds_columns source_info)
                 (''mutate from '' @ source_alias)))"

definition visit_PowerNode ::
  "SemanticAnalyzer \<Rightarrow> ASTNode \<Rightarrow> string \<Rightarrow> string option \<Rightarrow> exc + SemanticAnalyzer" where
  "visit_PowerNode A node source_alias new_alias =
     (case check_dataset_exists A source_alias node of
        Inl e \<Rightarrow> Inl e
      | Inr source_info \<Rightarrow>
          Inr (register_result A new_alias (ds_columns source_info)
                 (''power from '' @ source_alias)))"

definition visit_JoinNode ::
  "SemanticAnalyzer \<Rightarrow> ASTNode \<Rightarrow> string \<Rightarrow> string \<Rightarrow> string \<Rightarrow> string option
     \<Rightarrow> exc + SemanticAnalyzer" where
  "visit_JoinNode A node alias1 alias2 join_column new_alias =
     (case check_dataset_exists A alias1 node of
        Inl e \<Rightarrow> Inl e
      | Inr left_info \<Rightarrow>
     (case check_dataset_exists A alias2 node of
        Inl e \<Rightarrow> Inl e
      | Inr right_info \<Rightarrow>
     (case (if ds_columns left_info \<noteq> []
            then check_column_exists A left_info join_column node else Inr ()) of
        Inl e \<Rightarrow> Inl e
      | Inr u \<Rightarrow>
     (case (if ds_columns right_info \<noteq> []
            then check_column_exists A right_info join_column node else Inr ()) of
        Inl e \<Rightarrow> Inl e
      | Inr u' \<Rightarrow>
          Inr (register_result A new_alias []
                 (''join '' @ alias1 @ '' with '' @ alias2))))))"

definition visit_DescribeNode ::
  "SemanticAnalyzer \<Rightarrow> ASTNode \<Rightarrow> string \<Rightarrow> exc + SemanticAnalyzer" where
  "visit_DescribeNode A node source_alias =
     (case check_dataset_exists A source_alias node of
        Inl e \<Rightarrow> Inl e
      | Inr info \<Rightarrow> Inr A)"

text \<open>
  \<open>visit\<close> looks for a method \<open>visit_<class name>\<close> and falls back to \<open>generic_visit\<close>,
  which does nothing.  Of the embedded classes, \<open>UnionNode\<close>, \<open>ProgramNode\<close>,
  \<open>MutationNode\<close> and the condition and expression classes have no visitor.  The visitors of
  the classes not embedded are the parameter \<open>vo\<close>.  What a visitor changes is the
  symbol table, and it may have done so by the time it raises, so \<open>vo\<close> answers with the
  symbol table in both cases.
\<close>

type_synonym other_visitors = "SemanticAnalyzer \<Rightarrow> ASTNode \<Rightarrow> exc option \<times> SymbolTable"

definition visit ::
  "env \<Rightarrow> other_visitors \<Rightarrow> SemanticAnalyzer \<Rightarrow> ASTNode \<Rightarrow> exc option \<times> SemanticAnalyzer" where
  "visit E vo A node =
     (let keep = (\<lambda>r. case r of Inl e \<Rightarrow> (Some e, A) | Inr A' \<Rightarrow> (None, A')) in
      case node_fields node of
        LoadNode filepath alias fmt params \<Rightarrow> (None, visit_LoadNode E A filepath alias fmt)
      | SelectNode s cols a \<Rightarrow> keep (visit_SelectNode A node s cols a)
      | UpdatedFilterNode s c a \<Rightarrow> keep (visit_UpdatedFilterNode A node s a)
      | JoinNode a1 a2 c a \<Rightarrow> keep (visit_JoinNode A node a1 a2 c a)
      | DescribeNode s cols \<Rightarrow> keep (visit_DescribeNode A node s)
      | MutateNode s ms a \<Rightarrow> keep (visit_MutateNode A node s a)
      | PowerNode s c a ex \<Rightarrow> keep (visit_PowerNode A node s a)
      | OtherNode cn v \<Rightarrow> (case vo A node of (x, st) \<Rightarrow> (x, A\<lparr>symbol_table := st\<rparr>))
      | _ \<Rightarrow> (None, A))"

text \<open>
  \<open>analyze\<close>: each statement is visited; a diagnostic is collected and the walk goes on,
  any other exception ends it.  The result comes with the analyzer, whose symbol table
  is the one the caller handed in.
\<close>

fun analyze_loop ::
  "env \<Rightarrow> other_visitors \<Rightarrow> SemanticAnalyzer \<Rightarrow> ASTNode list \<Rightarrow> NoetaError list
     \<Rightarrow> (exc + NoetaError list) \<times> SemanticAnalyzer" where
  "analyze_loop E vo A [] errors = (Inr errors, A)"
| "analyze_loop E vo A (statement # stmts) errors =
     (case visit E vo A statement of
        (None, A') \<Rightarrow> analyze_loop E vo A' stmts errors
      | (Some (NoetaExc e), A') \<Rightarrow> analyze_loop E vo A' stmts (errors @ [e])
      | (Some (PyExc k m), A') \<Rightarrow> (Inl (PyExc k m), A'))"

definition analyze ::
  "env \<Rightarrow> other_visitors \<Rightarrow> SemanticAnalyzer \<Rightarrow> ASTNode
     \<Rightarrow> (exc + NoetaError list) \<times> SemanticAnalyzer" where
  "analyze E vo A ast =
     (case node_fields ast of
        ProgramNode statements \<Rightarrow> analyze_loop E vo A statements []
      | f \<Rightarrow> (Inl (PyExc ''AttributeError''
                    (sq @ class_name f @ sq @ '' object has no attribute '' @ sq
                     @ ''statements'' @ sq)), A))"

section \<open>Code generator (noeta\_codegen.py)\<close>

text \<open>
  \<open>str(v)\<close> and \<open>repr(v)\<close> of a value.  A string is quoted with single quotes, which is
  what \<open>repr\<close> does for a string without quotes, backslashes or control characters (so
  for every name the lexer reads); a decimal is shown as it was written.
\<close>

fun py_repr :: "PyVal \<Rightarrow> string" where
  "py_repr VNone = ''None''"
| "py_repr (VBool b) = (if b then ''True'' else ''False'')"
| "py_repr (VInt i) = str_int i"
| "py_repr (VFloat f) = f"
| "py_repr (VStr s) = sq @ s @ sq"
| "py_repr (VList xs) = ''['' @ join '', '' (map py_repr xs) @ '']''"
| "py_repr (VDict kvs) =
     ''{'' @ join '', '' (map (\<lambda>(k, v). py_repr k @ '': '' @ py_repr v) kvs) @ ''}''"

fun py_str :: "PyVal \<Rightarrow> string" where
  "py_str (VStr s) = s"
| "py_str v = py_repr v"

definition repr_str_list :: "string list \<Rightarrow> string" where
  "repr_str_list xs = py_repr (VList (map VStr xs))"

definition replace_char :: "char \<Rightarrow> string \<Rightarrow> string \<Rightarrow> string" where
  "replace_char c r s = concat (map (\<lambda>d. if d = c then r else [d]) s)"

fun format_value :: "PyVal \<Rightarrow> string" where
  "format_value VNone = ''None''"
| "format_value (VBool b) = (if b then ''True'' else ''False'')"
| "format_value (VStr s) = sq @ replace_char (CHR 0x27) (bsl @ sq) s @ sq"
| "format_value (VInt i) = str_int i"
| "format_value (VFloat f) = f"
| "format_value (VList xs) = ''['' @ join '', '' (map format_value xs) @ '']''"
| "format_value (VDict kvs) =
     ''{'' @ join '', '' (map (\<lambda>(k, v). format_value k @ '': '' @ format_value v) kvs) @ ''}''"

definition build_params_str :: "(PyVal \<times> PyVal) list \<Rightarrow> string" where
  "build_params_str params =
     (if params = [] then []
      else join '', '' (map (\<lambda>(k, v). py_str k @ ''='' @ format_value v) params))"

definition format_value_for_pandas :: "PyVal \<Rightarrow> string" where
  "format_value_for_pandas v =
     (case v of
        VStr s \<Rightarrow> sq @ s @ sq
      | VBool b \<Rightarrow> (if b then ''True'' else ''False'')
      | VInt i \<Rightarrow> str_int i
      | VFloat f \<Rightarrow> f
      | VNone \<Rightarrow> ''None''
      | _ \<Rightarrow> py_repr v)"

record CodeGenerator =
  cg_symbol_table :: "string option list"
  persistent_symbol_table :: "SymbolTable option"
  cg_imports :: "string list"
  code_lines :: "string list"
  last_plot :: bool

definition new_CodeGenerator :: "SymbolTable option \<Rightarrow> CodeGenerator" where
  "new_CodeGenerator st =
     \<lparr>cg_symbol_table = [], persistent_symbol_table = st, cg_imports = [], code_lines = [],
      last_plot = False\<rparr>"

text \<open>\<open>self.imports\<close> is a set: adding a member twice changes nothing.\<close>

definition add_import :: "string \<Rightarrow> CodeGenerator \<Rightarrow> CodeGenerator" where
  "add_import i G =
     (if i \<in> set (cg_imports G) then G else G\<lparr>cg_imports := cg_imports G @ [i]\<rparr>)"

definition emit :: "string \<Rightarrow> CodeGenerator \<Rightarrow> CodeGenerator" where
  "emit l G = G\<lparr>code_lines := code_lines G @ [l]\<rparr>"

definition bind_symbol :: "string option \<Rightarrow> CodeGenerator \<Rightarrow> CodeGenerator" where
  "bind_symbol a G =
     (if a \<in> set (cg_symbol_table G) then G
      else G\<lparr>cg_symbol_table := cg_symbol_table G @ [a]\<rparr>)"

text \<open>\<open>sorted(self.imports)\<close>: strings in the order of their code points.\<close>

fun str_le :: "string \<Rightarrow> string \<Rightarrow> bool" where
  "str_le [] ys = True"
| "str_le (x # xs) [] = False"
| "str_le (x # xs) (y # ys) =
     (if x = y then str_le xs ys else (of_char x :: nat) < of_char y)"

fun insort_str :: "string \<Rightarrow> string list \<Rightarrow> string list" where
  "insort_str x [] = [x]"
| "insort_str x (y # ys) = (if str_le x y then x # y # ys else y # insort_str x ys)"

definition sorted_strs :: "string list \<Rightarrow> string list" where
  "sorted_strs xs = foldr insort_str xs []"

text \<open>How an optional alias appears in an f-string.\<close>

definition opt_str :: "string option \<Rightarrow> string" where
  "opt_str a = (case a of None \<Rightarrow> ''None'' | Some s \<Rightarrow> s)"

definition alias_given :: "string option \<Rightarrow> bool" where
  "alias_given a = (case a of None \<Rightarrow> False | Some s \<Rightarrow> s \<noteq> [])"

definition loaded_message :: "string \<Rightarrow> string \<Rightarrow> string" where
  "loaded_message filepath alias =
     ''print(f'' @ sq @ ''Loaded '' @ filepath @ '' as '' @ alias @ '': {len('' @ alias
     @ '')} rows, {len('' @ alias @ ''.columns)} columns'' @ sq @ '')''"

definition read_call :: "string \<Rightarrow> string \<Rightarrow> string \<Rightarrow> string \<Rightarrow> string" where
  "read_call reader alias filepath params_str =
     (if params_str \<noteq> []
      then alias @ '' = pd.'' @ reader @ ''('' @ sq @ filepath @ sq @ '', '' @ params_str @ '')''
      else alias @ '' = pd.'' @ reader @ ''('' @ sq @ filepath @ sq @ '')'')"

definition read_sql_call :: "string \<Rightarrow> string \<Rightarrow> (PyVal \<times> PyVal) list \<Rightarrow> string" where
  "read_sql_call alias filepath params =
     (let sql_params = filter (\<lambda>(k, v). k \<notin> set [VStr ''connection'', VStr ''params'']) params;
          sql_params_str = build_params_str sql_params;
          head = alias @ '' = pd.read_sql('' @ sq @ sq @ sq @ filepath @ sq @ sq @ sq
                 @ '', con=_engine''
      in case map_of params (VStr ''params'') of
           Some query_params \<Rightarrow>
             (if sql_params_str \<noteq> []
              then head @ '', params='' @ format_value query_params @ '', '' @ sql_params_str
                   @ '')''
              else head @ '', params='' @ format_value query_params @ '')'')
         | None \<Rightarrow>
             (if sql_params_str \<noteq> [] then head @ '', '' @ sql_params_str @ '')''
              else head @ '')''))"

definition gen_LoadNode ::
  "CodeGenerator \<Rightarrow> string \<Rightarrow> string \<Rightarrow> string option \<Rightarrow> (PyVal \<times> PyVal) list option
     \<Rightarrow> CodeGenerator" where
  "gen_LoadNode G filepath alias format_type params_opt =
     (let params = (case params_opt of None \<Rightarrow> [] | Some ps \<Rightarrow> ps);
          params_str = build_params_str params
      in if format_type = Some ''csv''
           then emit (loaded_message filepath alias)
                  (emit (read_call ''read_csv'' alias filepath params_str) G)
         else if format_type = Some ''json''
           then emit (loaded_message filepath alias)
                  (emit (read_call ''read_json'' alias filepath params_str) G)
         else if format_type = Some ''excel''
           then emit (loaded_message filepath alias)
                  (emit (read_call ''read_excel'' alias filepath params_str) G)
         else if format_type = Some ''parquet''
           then emit (loaded_message filepath alias)
                  (emit (read_call ''read_parquet'' alias filepath params_str) G)
         else if format_type = Some ''sql''
           then emit (loaded_message filepath alias)
                  (emit (read_sql_call alias filepath params)
                     (emit (''_engine = create_engine('' @ sq
                            @ (case map_of params (VStr ''connection'') of
                                 Some c \<Rightarrow> py_str c
                               | None \<Rightarrow> filepath)
                            @ sq @ '')'')
                        (add_import ''from sqlalchemy import create_engine'' G)))
         else emit (loaded_message filepath alias)
                (emit (read_call ''read_csv'' alias filepath params_str) G))"

definition gen_SelectNode ::
  "CodeGenerator \<Rightarrow> string \<Rightarrow> string list \<Rightarrow> string option \<Rightarrow> CodeGenerator" where
  "gen_SelectNode G source_alias cols new_alias =
     (let columns_str = replace_char (CHR 0x27) dq (repr_str_list cols) in
      if alias_given new_alias then
        bind_symbol new_alias
          (emit (''print(f'' @ sq @ ''Selected {len('' @ opt_str new_alias
                 @ ''.columns)} columns from '' @ source_alias @ sq @ '')'')
             (emit (opt_str new_alias @ '' = '' @ source_alias @ ''['' @ columns_str
                    @ ''].copy()'') G))
      else
        emit (''print('' @ source_alias @ ''['' @ columns_str @ ''])'')
          (emit (''print(f'' @ sq @ bsl @ ''nSelected Columns:'' @ sq @ '')'') G))"

text \<open>
  \<open>_generate_condition_code\<close>.  A string match of a kind other than the four known ones
  falls through every branch, and the method returns Python's \<open>None\<close>, which the caller
  formats as the text \<open>None\<close>.
\<close>

fun generate_condition_code :: "string \<Rightarrow> ASTNode \<Rightarrow> exc + string"
  and generate_condition_fields :: "string \<Rightarrow> NodeFields \<Rightarrow> exc + string" where
  "generate_condition_code source_alias (ASTNode l c f) = generate_condition_fields source_alias f"
| "generate_condition_fields source_alias (BinaryConditionNode left operator right) =
     (case generate_condition_code source_alias left of
        Inl e \<Rightarrow> Inl e
      | Inr left_expr \<Rightarrow>
          (case generate_condition_code source_alias right of
             Inl e \<Rightarrow> Inl e
           | Inr right_expr \<Rightarrow>
               Inr (''('' @ left_expr @ '') '' @ (if operator = ''and'' then ''&'' else ''|'')
                    @ '' ('' @ right_expr @ '')'')))"
| "generate_condition_fields source_alias (NotConditionNode condition) =
     (case generate_condition_code source_alias condition of
        Inl e \<Rightarrow> Inl e
      | Inr inner_expr \<Rightarrow> Inr (''~('' @ inner_expr @ '')''))"
| "generate_condition_fields source_alias (ComparisonNode left operator right) =
     Inr (source_alias @ ''['' @ sq @ left @ sq @ '']'' @ '' '' @ operator @ '' ''
          @ format_value_for_pandas right)"
| "generate_condition_fields source_alias (BetweenNode column min_value max_value) =
     Inr (source_alias @ ''['' @ sq @ column @ sq @ '']'' @ ''.between(''
          @ format_value_for_pandas min_value @ '', '' @ format_value_for_pandas max_value
          @ '')'')"
| "generate_condition_fields source_alias (InNode column vs) =
     Inr (source_alias @ ''['' @ sq @ column @ sq @ '']'' @ ''.isin([''
          @ join '', '' (map format_value_for_pandas vs) @ ''])'')"
| "generate_condition_fields source_alias (StringMatchNode column match_type pattern) =
     (let col = source_alias @ ''['' @ sq @ column @ sq @ '']'';
          pat = format_value_for_pandas (VStr pattern)
      in if match_type = ''contains'' then Inr (col @ ''.str.contains('' @ pat @ '', na=False)'')
         else if match_type = ''starts_with''
           then Inr (col @ ''.str.startswith('' @ pat @ '', na=False)'')
         else if match_type = ''ends_with''
           then Inr (col @ ''.str.endswith('' @ pat @ '', na=False)'')
         else if match_type = ''matches'' then Inr (col @ ''.str.match('' @ pat @ '', na=False)'')
         else Inr ''None'')"
| "generate_condition_fields source_alias (NullCheckNode column is_not_null) =
     (let col = source_alias @ ''['' @ sq @ column @ sq @ '']''
      in if is_not_null then Inr (col @ ''.notnull()'') else Inr (col @ ''.isnull()''))"
| "generate_condition_fields source_alias f =
     Inl (PyExc ''ValueError''
            (''Unknown condition type: <class '' @ sq @ ''noeta_ast.'' @ class_name f @ sq
             @ ''>''))"

definition gen_UpdatedFilterNode ::
  "CodeGenerator \<Rightarrow> string \<Rightarrow> ASTNode \<Rightarrow> string option \<Rightarrow> exc + CodeGenerator" where
  "gen_UpdatedFilterNode G source_alias condition new_alias =
     (case generate_condition_code source_alias condition of
        Inl e \<Rightarrow> Inl e
      | Inr filter_expr \<Rightarrow>
          (if alias_given new_alias then
             Inr (bind_symbol new_alias
                    (emit (''print(f'' @ sq @ ''Filtered '' @ source_alias @ '': {len(''
                           @ opt_str new_alias @ '')} rows match condition'' @ sq @ '')'')
                       (emit (opt_str new_alias @ '' = '' @ source_alias @ ''['' @ filter_expr
                              @ ''].copy()'') G)))
           else
             Inr (emit (''print('' @ source_alias @ ''['' @ filter_expr @ ''])'')
                    (emit (''print(f'' @ sq @ bsl @ ''nFiltered Result:'' @ sq @ '')'') G))))"

definition gen_JoinNode ::
  "CodeGenerator \<Rightarrow> string \<Rightarrow> string \<Rightarrow> string \<Rightarrow> string option \<Rightarrow> CodeGenerator" where
  "gen_JoinNode G alias1 alias2 join_column new_alias =
     (let merge_code = ''pd.merge('' @ alias1 @ '', '' @ alias2 @ '', on='' @ sq @ join_column
                       @ sq @ '', how='' @ sq @ ''inner'' @ sq @ '')''
      in if alias_given new_alias then
           bind_symbol new_alias
             (emit (''print(f'' @ sq @ ''Joined '' @ alias1 @ '' and '' @ alias2 @ '': {len(''
                    @ opt_str new_alias @ '')} rows'' @ sq @ '')'')
                (emit (opt_str new_alias @ '' = '' @ merge_code) G))
         else
           emit (''print('' @ merge_code @ '')'')
             (emit (''print(f'' @ sq @ bsl @ ''nJoined Result:'' @ sq @ '')'') G))"

definition gen_DescribeNode ::
  "CodeGenerator \<Rightarrow> string \<Rightarrow> string list option \<Rightarrow> CodeGenerator" where
  "gen_DescribeNode G source_alias cols =
     (case cols of
        Some (c # cs) \<Rightarrow>
          emit (''print('' @ dq @ bsl @ ''nDescriptive Statistics for ''
                @ repr_str_list (c # cs) @ '':'' @ dq @ '')'' @ nl
                @ ''print('' @ source_alias @ ''['' @ repr_str_list (c # cs)
                @ ''].describe())'') G
      | _ \<Rightarrow>
          emit (''print('' @ sq @ bsl @ ''nDescriptive Statistics for '' @ source_alias @ '':''
                @ sq @ '')'' @ nl
                @ ''print('' @ source_alias @ ''.describe())'') G)"

definition gen_UnionNode ::
  "CodeGenerator \<Rightarrow> string \<Rightarrow> string \<Rightarrow> string option \<Rightarrow> CodeGenerator" where
  "gen_UnionNode G left_alias right_alias new_alias =
     bind_symbol new_alias
       (emit (opt_str new_alias @ '' = pd.concat(['' @ left_alias @ '', '' @ right_alias
              @ '']).drop_duplicates().reset_index(drop=True)'' @ nl
              @ ''print(f'' @ sq @ ''Union of '' @ left_alias @ '' and '' @ right_alias
              @ '': {len('' @ opt_str new_alias @ '')} unique rows'' @ sq @ '')'') G)"

text \<open>
  The generator's \<open>visit\<close>; here \<open>generic_visit\<close> raises.  The visitors of \<open>MutateNode\<close>,
  \<open>PowerNode\<close> and of the classes not embedded are the parameter \<open>go\<close>.
\<close>

type_synonym other_generators = "CodeGenerator \<Rightarrow> ASTNode \<Rightarrow> exc + CodeGenerator"

definition gen_visit ::
  "other_generators \<Rightarrow> CodeGenerator \<Rightarrow> ASTNode \<Rightarrow> exc + CodeGenerator" where
  "gen_visit go G node =
     (case node_fields node of
        LoadNode filepath alias fmt params \<Rightarrow> Inr (gen_LoadNode G filepath alias fmt params)
      | SelectNode s cols a \<Rightarrow> Inr (gen_SelectNode G s cols a)
      | UpdatedFilterNode s c a \<Rightarrow> gen_UpdatedFilterNode G s c a
      | JoinNode a1 a2 c a \<Rightarrow> Inr (gen_JoinNode G a1 a2 c a)
      | DescribeNode s cols \<Rightarrow> Inr (gen_DescribeNode G s cols)
      | UnionNode l r a \<Rightarrow> Inr (gen_UnionNode G l r a)
      | MutateNode s ms a \<Rightarrow> go G node
      | PowerNode s c a ex \<Rightarrow> go G node
      | OtherNode cn v \<Rightarrow> go G node
      | f \<Rightarrow> Inl (PyExc ''NotImplementedError'' (''No visitor for '' @ class_name f)))"

fun gen_statements ::
  "other_generators \<Rightarrow> CodeGenerator \<Rightarrow> ASTNode list \<Rightarrow> exc + CodeGenerator" where
  "gen_statements go G [] = Inr G"
| "gen_statements go G (stmt # stmts) =
     (case gen_visit go G stmt of
        Inl e \<Rightarrow> Inl e
      | Inr G' \<Rightarrow> gen_statements go G' stmts)"

definition standard_imports :: "string list" where
  "standard_imports =
     [''import pandas as pd'', ''import numpy as np'', ''import matplotlib.pyplot as plt'',
      ''import seaborn as sns'', ''from scipy import stats'']"

definition display_block :: string where
  "display_block =
     nl @ nl @ ''# Display plots'' @ nl
     @ ''plt.tight_layout()'' @ nl
     @ ''try:'' @ nl
     @ ''    get_ipython()'' @ nl
     @ ''    # Running in Jupyter/IPython - don'' @ sq @ ''t show (kernel will display inline)''
     @ nl
     @ ''except NameError:'' @ nl
     @ ''    # Running in VS Code/CLI - show plots in separate windows'' @ nl
     @ ''    plt.show()''"

definition generate :: "other_generators \<Rightarrow> CodeGenerator \<Rightarrow> ASTNode \<Rightarrow> exc + string" where
  "generate go G ast =
     (case node_fields ast of
        ProgramNode statements \<Rightarrow>
          (case gen_statements go (foldl (\<lambda>g i. add_import i g) G standard_imports)
                  statements of
             Inl e \<Rightarrow> Inl e
           | Inr G' \<Rightarrow>
               Inr (join nl (sorted_strs (cg_imports G'))
                    @ nl @ nl @ ''# Configure visualization settings'' @ nl
                    @ ''plt.style.use('' @ sq @ ''seaborn-v0_8-darkgrid'' @ sq @ '')'' @ nl
                    @ ''sns.set_palette('' @ sq @ ''husl'' @ sq @ '')'' @ nl @ nl
                    @ join nl (code_lines G')
                    @ (if last_plot G' then display_block else [])))
      | f \<Rightarrow> Inl (PyExc ''AttributeError''
                   (sq @ class_name f @ sq @ '' object has no attribute '' @ sq
                    @ ''statements'' @ sq)))"

section \<open>Reports of several diagnostics (noeta\_errors.py)\<close>

definition format_entry :: "bool \<Rightarrow> nat \<Rightarrow> NoetaError \<Rightarrow> string list" where
  "format_entry color error_num e =
     [nl @ ''[Error '' @ str_nat error_num @ '']'']
     @ (case context' e of
          None \<Rightarrow> []
        | Some ctx \<Rightarrow>
            [colorize color (''  Line '' @ str_int (ctx_line ctx) @ '', column ''
                             @ str_int (ctx_column ctx) @ '':'') RED]
            @ (if ctx_source_line ctx \<noteq> [] then [format_source_context color ctx] else []))
     @ [colorize color (''    '' @ message e) RED]
     @ (case hint e of
          None \<Rightarrow> []
        | Some h \<Rightarrow> (if h \<noteq> [] then [colorize color (''  Hint: '' @ h) YELLOW] else []))
     @ (case suggestion e of
          None \<Rightarrow> []
        | Some s \<Rightarrow>
            (if s \<noteq> [] then [colorize color (''  Did you mean: '' @ s) GREEN] else []))"

fun format_entries :: "bool \<Rightarrow> nat \<Rightarrow> NoetaError list \<Rightarrow> string list" where
  "format_entries color error_num [] = []"
| "format_entries color error_num (e # es) =
     format_entry color error_num e @ format_entries color (error_num + 1) es"

text \<open>
  The errors of one category with their heading, numbered from \<open>error_num\<close>; nothing
  for a category without errors.
\<close>

definition format_category ::
  "bool \<Rightarrow> NoetaError list \<Rightarrow> nat \<Rightarrow> ErrorCategory \<Rightarrow> string list" where
  "format_category color errors error_num cat =
     (let category_errors = filter (\<lambda>e. category e = cat) errors in
      if category_errors = [] then []
      else [colorize color (nl @ category_value cat @ ''s (''
                            @ str_nat (length category_errors) @ ''):'') BOLD,
            replicate 60 CHR ''-'']
           @ format_entries color error_num category_errors)"

fun format_categories ::
  "bool \<Rightarrow> NoetaError list \<Rightarrow> nat \<Rightarrow> ErrorCategory list \<Rightarrow> string list" where
  "format_categories color errors error_num [] = []"
| "format_categories color errors error_num (cat # cats) =
     format_category color errors error_num cat
     @ format_categories color errors
         (error_num + length (filter (\<lambda>e. category e = cat) errors)) cats"

definition format_multiple :: "bool \<Rightarrow> NoetaError list \<Rightarrow> string" where
  "format_multiple color errors =
     (case errors of
        [] \<Rightarrow> ''No errors to display''
      | [e] \<Rightarrow> format_error color e
      | _ \<Rightarrow>
          join nl
            ([colorize color (''Found '' @ str_nat (length errors) @ '' errors in compilation:'')
                (RED @ BOLD),
              []]
             @ format_categories color errors 1 [LEXER, SYNTAX, SEMANTIC, TYPE', RUNTIME]
             @ [[], replicate 60 CHR ''='',
                colorize color (''Total: '' @ str_nat (length errors) @ '' error''
                                @ (if length errors \<noteq> 1 then ''s'' else []) @ '' found'')
                  (RED @ BOLD)]))"

definition create_multi_error :: "bool \<Rightarrow> NoetaError list \<Rightarrow> NoetaError" where
  "create_multi_error color errors =
     (case errors of
        [] \<Rightarrow> \<lparr>message = ''No errors to display'', category = RUNTIME, context' = None,
                hint = None, suggestion = None\<rparr>
      | [e] \<Rightarrow> e
      | e # es \<Rightarrow> \<lparr>message = format_multiple color errors, category = category e,
                    context' = None, hint = None, suggestion = None\<rparr>)"

section \<open>The compile entry point (noeta\_runner.py)\<close>

text \<open>The code that is not embedded, as one parameter.\<close>

record unembedded =
  parse_other :: other_routines
  visit_other :: other_visitors
  generate_other :: other_generators

text \<open>\<open>str(e)\<close> of an exception: the formatted diagnostic, or the message.\<close>

definition str_exc :: "bool \<Rightarrow> exc \<Rightarrow> string" where
  "str_exc color x = (case x of NoetaExc e \<Rightarrow> format_error color e | PyExc k m \<Rightarrow> m)"

text \<open>
  The body of the \<open>try\<close> block.  The result comes with the carried symbol table as the
  analyzer left it (\<open>None\<close> when the caller passed none).
\<close>

definition compile_body ::
  "env \<Rightarrow> unembedded \<Rightarrow> string \<Rightarrow> bool \<Rightarrow> SymbolTable option
     \<Rightarrow> (exc + string) \<times> SymbolTable option" where
  "compile_body E U src type_check st =
     (case tokenize src of
        Inl e \<Rightarrow> (Inl e, st)
      | Inr toks \<Rightarrow>
     (case parse E (parse_other U) (new_Parser toks src) of
        Inl e \<Rightarrow> (Inl e, st)
      | Inr ast \<Rightarrow>
     (case analyze E (visit_other U) (new_SemanticAnalyzer src type_check st) ast of
        (r, A) \<Rightarrow>
          (let st' = (case st of None \<Rightarrow> None | Some t \<Rightarrow> Some (symbol_table A)) in
           case r of
             Inl e \<Rightarrow> (Inl e, st')
           | Inr errors \<Rightarrow>
               (if errors \<noteq> [] then
                  (if length errors = 1 then (Inl (NoetaExc (errors ! 0)), st')
                   else (Inl (NoetaExc (create_multi_error (supports_color E) errors)), st'))
                else (generate (generate_other U) (new_CodeGenerator st') ast, st'))))))"

text \<open>
  \<open>compile_noeta\<close>: a diagnostic is raised again as it is, any other exception is
  replaced by a \<open>RuntimeError\<close>.
\<close>

definition compile_noeta ::
  "env \<Rightarrow> unembedded \<Rightarrow> string \<Rightarrow> bool \<Rightarrow> SymbolTable option
     \<Rightarrow> (exc + string) \<times> SymbolTable option" where
  "compile_noeta E U src type_check st =
     (case compile_body E U src type_check st of
        (Inr python_code, st') \<Rightarrow> (Inr python_code, st')
      | (Inl (NoetaExc e), st') \<Rightarrow> (Inl (NoetaExc e), st')
      | (Inl (PyExc k m), st') \<Rightarrow>
          (Inl (PyExc ''RuntimeError''
                  (''Unexpected compilation error: '' @ m @ nl @ ''Please report this as a bug'')),
           st'))"

section \<open>Notions for the properties\<close>

text \<open>
  The stages on their own, for stating what they do on a source text: the program that
  \<open>Lexer\<close> and \<open>Parser\<close> build, the diagnostics that \<open>analyze\<close> returns for it, and the
  expression that \<open>parse_expression\<close> builds from the tokens of a text.
\<close>

definition parse_source :: "env \<Rightarrow> other_routines \<Rightarrow> string \<Rightarrow> exc + ASTNode" where
  "parse_source E po src =
     (case tokenize src of
        Inl e \<Rightarrow> Inl e
      | Inr toks \<Rightarrow> parse E po (new_Parser toks src))"

definition diagnostics ::
  "env \<Rightarrow> unembedded \<Rightarrow> string \<Rightarrow> bool \<Rightarrow> SymbolTable option \<Rightarrow> exc + NoetaError list" where
  "diagnostics E U src type_check st =
     (case parse_source E (parse_other U) src of
        Inl e \<Rightarrow> Inl e
      | Inr ast \<Rightarrow> fst (analyze E (visit_other U) (new_SemanticAnalyzer src type_check st) ast))"

definition expression_of :: "string \<Rightarrow> exc + ASTNode" where
  "expression_of src =
     (case tokenize src of
        Inl e \<Rightarrow> Inl e
      | Inr toks \<Rightarrow>
          (case parse_expression (new_Parser toks src) of
             Inl e \<Rightarrow> Inl e
           | Inr (expr, P) \<Rightarrow> Inr expr))"








text \<open>
  Concrete surroundings: a terminal without colours and one with colours, where no file
  can be inspected, and the compiler restricted to the embedded statement forms.
\<close>

definition plain_terminal :: env where
  "plain_terminal =
     \<lparr>supports_color = False, file_schema = (\<lambda>path fmt. []), repr_Token = (\<lambda>t. ''Token'')\<rparr>"


definition embedded_only :: unembedded where
  "embedded_only =
     \<lparr>parse_other = (\<lambda>P. Inl (PyExc ''NotImplementedError'' ''statement form'')),
      visit_other = (\<lambda>A node. (None, symbol_table A)),
      generate_other = (\<lambda>G node. Inl (PyExc ''NotImplementedError'' ''statement form''))\<rparr>"


definition d_table :: SymbolTable where
  "d_table =
     define_dataset new_SymbolTable ''d''
       \<lparr>ds_name = ''d'',
        ds_columns =
          [(''price'', \<lparr>col_name = ''price'', dtype = NUMERIC, nullable = False\<rparr>),
           (''category'', \<lparr>col_name = ''category'', dtype = STRING, nullable = True\<rparr>)],
        ds_source = Some ''d.csv''\<rparr>"



section \<open>Supporting lemmas\<close>

subsection \<open>The expression grammar never returns\<close>

text \<open>
  \<open>TokenType\<close> declares no member \<open>MULTIPLY\<close>, so the loop of \<open>parse_multiplicative\<close>
  raises \<open>AttributeError\<close> as soon as it is reached, whatever the tokens are; before
  that, the operand is read by the routine of the \<open>power\<close> statement.
\<close>

lemma multiplicative_loop_raises:
  "multiplicative_loop left P = Inl (PyExc ''AttributeError'' ''MULTIPLY'')"
  by (subst multiplicative_loop.simps) (simp add: TokenType_attr_def TokenType_declared_def)

lemma parse_multiplicative_raises: "parse_multiplicative P \<noteq> Inr r"
  by (simp add: parse_multiplicative_def multiplicative_loop_raises split: sum.split prod.split)

lemma parse_expression_raises: "parse_expression P \<noteq> Inr r"
  by (simp add: parse_expression_def parse_conditional_def parse_logical_or_def
      parse_logical_and_def parse_comparison_def parse_additive_def parse_multiplicative_raises
      split: sum.split prod.split)

subsection \<open>The nearest name\<close>






subsection \<open>The first undefined alias of a statement\<close>





subsection \<open>What the surroundings can change\<close>



















subsection \<open>When the compile entry point returns\<close>



section \<open>Properties of the lexer\<close>

text \<open>
  C4.  Two-character operators are matched greedily: wherever \<open>==\<close>, \<open>!=\<close>, \<open>\<le>\<close> written
  \<open><=\<close>, \<open>>=\<close> or \<open>**\<close> starts an operator, one two-character token is produced.  For
  \<open>**\<close> the lexer does otherwise: the test for a single \<open>*\<close> comes before the test for
  \<open>**\<close>, so the text \<open>**\<close> is read as two \<open>STAR\<close> tokens and no \<open>EXPONENT\<close> token is ever
  produced from an operator.
\<close>

theorem C4_power_operator_is_two_stars:
  "tokenize ''**'' =
     Inr [Tok ''STAR'' (VStr ''*'') 1 1, Tok ''STAR'' (VStr ''*'') 1 2, Tok ''EOF'' VNone 1 3]"
  by code_simp

text \<open>
  C6.  A source text with an unterminated string literal fails in the lexer with one
  lexical diagnostic, so that parsing does not begin.  The lexer does otherwise:
  \<open>read_string\<close> stops at the end of the text and returns what it has read, so
  \<open>load "unterminated\<close> is tokenized without any diagnostic, the literal running to the end
  of the text; parsing begins, and the error that compilation ends with is the parser's,
  of category syntax.
\<close>

theorem C6_unterminated_string_is_tokenized:
  "tokenize (''load '' @ dq @ ''unterminated'') =
     Inr [Tok ''LOAD'' (VStr ''load'') 1 1,
          Tok ''STRING_LITERAL'' (VStr ''unterminated'') 1 6,
          Tok ''EOF'' VNone 1 19] \<and>
   fst (compile_noeta E U (''load '' @ dq @ ''unterminated'') type_check st) =
     Inl (NoetaExc
       \<lparr>message = ''Unexpected end of file. Expected '' @ dq @ ''as'' @ dq @ '' keyword'',
        category = SYNTAX,
        context' = Some \<lparr>ctx_line = 1, ctx_column = 18, ctx_length = 1,
                           ctx_source_line = ''load '' @ dq @ ''unterminated''\<rparr>,
        hint = Some ''The file ended before the statement was complete'',
        suggestion = None\<rparr>)"
  by code_simp

section \<open>Properties of the parser\<close>

text \<open>
  C3.  The expression grammar gives \<open>1 + 2 * 3 ** 2\<close> the tree of \<open>1 + (2 * (3 ** 2))\<close>.
  The parser does otherwise: it builds no tree.  The operand of the lowest level is
  read by \<open>parse_power\<close>, which is the routine of the \<open>power\<close> statement (the second
  definition of that name in the class): it skips the \<open>1\<close> and asks for a dataset name where
  the \<open>+\<close> stands.
\<close>

theorem C3_expression_is_rejected:
  "expression_of ''1 + 2 * 3 ** 2'' =
     Inl (NoetaExc
       \<lparr>message = ''Expected dataset or column name, got plus'',
        category = SYNTAX,
        context' = Some \<lparr>ctx_line = 1, ctx_column = 3, ctx_length = 1,
                           ctx_source_line = ''1 + 2 * 3 ** 2''\<rparr>,
        hint = Some ''Check the syntax for this operation'',
        suggestion = None\<rparr>)"
  by code_simp

text \<open>
  C5.  A single-line statement parses to a program of one statement node whose line
  and column are those of the statement's leading keyword.  The parser does otherwise:
  it never sets a position, so the node of \<open>load "x.csv" as d\<close> has line 0 and column 0,
  while the token \<open>load\<close> is at line 1, column 1.
\<close>

theorem C5_statement_node_has_no_position:
  "tokenize (''load '' @ dq @ ''x.csv'' @ dq @ '' as d'') =
     Inr [Tok ''LOAD'' (VStr ''load'') 1 1,
          Tok ''STRING_LITERAL'' (VStr ''x.csv'') 1 6,
          Tok ''AS'' (VStr ''as'') 1 14,
          Tok ''IDENTIFIER'' (VStr ''d'') 1 17,
          Tok ''EOF'' VNone 1 18] \<and>
   parse_source E po (''load '' @ dq @ ''x.csv'' @ dq @ '' as d'') =
     Inr (ASTNode 0 0 (ProgramNode [ASTNode 0 0 (LoadNode ''x.csv'' ''d'' None None)]))"
  by code_simp

text \<open>
  C7.  The text \<open>filter d where price between 10 and 100 and category in ["A","B"] as f\<close>
  parses to one statement node whose condition is an \<open>and\<close> of a \<open>between\<close> on \<open>price\<close>
  with the bounds 10 and 100 and an \<open>in\<close> on \<open>category\<close> with the values \<open>A\<close> and \<open>B\<close>;
  and when the carried symbol table defines \<open>d\<close>, with whatever schema, the analysis of
  the program returns no diagnostic.
\<close>

theorem C7_filter_between_and_in:
  assumes "lookup st ''d'' = Some info"
  shows "parse_source E po
           (''filter d where price between 10 and 100 and category in [''
            @ dq @ ''A'' @ dq @ '','' @ dq @ ''B'' @ dq @ ''] as f'') =
           Inr (new_node (ProgramNode
                  [new_node (UpdatedFilterNode ''d''
                     (new_node (BinaryConditionNode
                        (new_node (BetweenNode ''price'' (VInt 10) (VInt 100)))
                        ''and''
                        (new_node (InNode ''category'' [VStr ''A'', VStr ''B'']))))
                     (Some ''f''))])) \<and>
         diagnostics E U
           (''filter d where price between 10 and 100 and category in [''
            @ dq @ ''A'' @ dq @ '','' @ dq @ ''B'' @ dq @ ''] as f'') type_check (Some st) =
           Inr []"
proof -
  let ?src = "''filter d where price between 10 and 100 and category in [''
            @ dq @ ''A'' @ dq @ '','' @ dq @ ''B'' @ dq @ ''] as f''"
  let ?ast = "new_node (ProgramNode
                  [new_node (UpdatedFilterNode ''d''
                     (new_node (BinaryConditionNode
                        (new_node (BetweenNode ''price'' (VInt 10) (VInt 100)))
                        ''and''
                        (new_node (InNode ''category'' [VStr ''A'', VStr ''B'']))))
                     (Some ''f''))])"
  have p: "parse_source E po ?src = Inr ?ast" for po
    by code_simp
  have "fst (analyze E (visit_other U) (new_SemanticAnalyzer ?src type_check (Some st)) ?ast)
          = Inr []"
    using assms
    by (simp add: analyze_def new_node_def visit_def visit_UpdatedFilterNode_def
        check_dataset_exists_def new_SemanticAnalyzer_def)
  then have "diagnostics E U ?src type_check (Some st) = Inr []"
    unfolding diagnostics_def p by simp
  with p show ?thesis by (rule conjI)
qed

theorem C7_filter_between_and_in_witness:
  "lookup d_table ''d'' =
     Some \<lparr>ds_name = ''d'',
           ds_columns =
             [(''price'', \<lparr>col_name = ''price'', dtype = NUMERIC, nullable = False\<rparr>),
              (''category'', \<lparr>col_name = ''category'', dtype = STRING, nullable = True\<rparr>)],
           ds_source = Some ''d.csv''\<rparr> \<and>
   diagnostics plain_terminal embedded_only
     (''filter d where price between 10 and 100 and category in [''
      @ dq @ ''A'' @ dq @ '','' @ dq @ ''B'' @ dq @ ''] as f'') False (Some d_table) =
     Inr []"
proof -
  have h: "lookup d_table ''d'' =
     Some \<lparr>ds_name = ''d'',
           ds_columns =
             [(''price'', \<lparr>col_name = ''price'', dtype = NUMERIC, nullable = False\<rparr>),
              (''category'', \<lparr>col_name = ''category'', dtype = STRING, nullable = True\<rparr>)],
           ds_source = Some ''d.csv''\<rparr>"
    by code_simp
  from C7_filter_between_and_in [OF h, of plain_terminal "parse_other embedded_only"
      embedded_only False]
  have "diagnostics plain_terminal embedded_only
     (''filter d where price between 10 and 100 and category in [''
      @ dq @ ''A'' @ dq @ '','' @ dq @ ''B'' @ dq @ ''] as f'') False (Some d_table) =
     Inr []"
    by (rule conjunct2)
  with h show ?thesis by (rule conjI)
qed

section \<open>Properties of the semantic analyzer\<close>

text \<open>
  C1.  For a program that parses, analyzed without type checking and with a fresh
  symbol table, no diagnostic is returned exactly when every statement's source aliases
  are defined by an earlier statement.  The analyzer does otherwise in both directions,
  because the \<open>union\<close> statement has no visitor: \<open>union zz1 with zz2 as c\<close> returns no
  diagnostic although neither \<open>zz1\<close> nor \<open>zz2\<close> is defined; and after two loads and a
  union of them as \<open>c\<close>, \<open>describe c\<close> is reported as undefined although the union
  defines \<open>c\<close>.
\<close>

theorem C1_union_is_not_analyzed:
  "diagnostics E U ''union zz1 with zz2 as c'' False None = Inr [] \<and>
   diagnostics E U
     (''load '' @ dq @ ''a.csv'' @ dq @ '' as a'' @ nl @
      ''load '' @ dq @ ''b.csv'' @ dq @ '' as b'' @ nl @
      ''union a with b as c'' @ nl @
      ''describe c'') False None =
     Inr [\<lparr>message = ''Dataset '' @ sq @ ''c'' @ sq @ '' has not been loaded or created'',
           category = SEMANTIC, context' = None,
           hint = Some ''Available datasets: a, b'',
           suggestion = Some (''Did you mean '' @ sq @ ''a'' @ sq @ ''?'')\<rparr>]"
  by code_simp




section \<open>Properties of the compile entry point\<close>





text \<open>
  C10.  For every source text \<open>compile_noeta\<close> either returns the generated text, or
  raises the diagnostic that a stage raised, unchanged, or raises a \<open>RuntimeError\<close> whose
  message is \<open>Unexpected compilation error: \<close> followed by the message of the exception
  that a stage raised; nothing else leaves it.
\<close>

theorem C10_only_diagnostics_and_RuntimeError_escape:
  "(\<exists>python_code. fst (compile_noeta E U src type_check st) = Inr python_code) \<or>
   (\<exists>e. fst (compile_body E U src type_check st) = Inl (NoetaExc e) \<and>
        fst (compile_noeta E U src type_check st) = Inl (NoetaExc e)) \<or>
   (\<exists>k m. fst (compile_body E U src type_check st) = Inl (PyExc k m) \<and>
        fst (compile_noeta E U src type_check st) =
          Inl (PyExc ''RuntimeError''
                 (''Unexpected compilation error: '' @ m @ nl
                  @ ''Please report this as a bug'')))"
proof -
  obtain r st' where b: "compile_body E U src type_check st = (r, st')"
    by (cases "compile_body E U src type_check st")
  show ?thesis
  proof (cases r)
    case (Inr python_code)
    with b show ?thesis by (simp add: compile_noeta_def)
  next
    case (Inl x)
    with b show ?thesis by (cases x) (simp_all add: compile_noeta_def)
  qed
qed

end
